theory Spec2Isabelle
  imports Complex_Main
begin

section \<open>Single-precision values\<close>

text \<open>
  The engine computes on C++ \<^verbatim>\<open>float\<close>. A value is modelled as a finite real number or
  one of the three special values of IEEE 754 arithmetic. The special values follow the
  IEEE rules (a nonzero finite value divided by zero is an infinity, zero divided by
  zero and infinity times zero are NaN, every comparison with NaN is false). On finite
  operands the operations are exact: rounding, overflow of a finite result to an
  infinity, and the sign of zero are abstracted away (a zero divisor acts as +0).
  Statements that rounding or overflow could decide are therefore made with the tests
  of the code itself, which hold in any arithmetic, or under explicit bounds that keep
  the values of the code in range.
\<close>

datatype f32 = Fin real | PInf | NInf | NaN

fun is_finite :: "f32 \<Rightarrow> bool" where
  "is_finite (Fin r) = True"
| "is_finite PInf = False"
| "is_finite NInf = False"
| "is_finite NaN = False"

fun is_nan :: "f32 \<Rightarrow> bool" where
  "is_nan NaN = True"
| "is_nan (Fin r) = False"
| "is_nan PInf = False"
| "is_nan NInf = False"

text \<open>The infinity with the given sign (\<open>True\<close> for positive).\<close>

fun inf_of :: "bool \<Rightarrow> f32" where
  "inf_of True = PInf"
| "inf_of False = NInf"

instantiation f32 :: "{zero, one, plus, minus, uminus, times, inverse, ord}"
begin

definition zero_f32 :: f32 where
  "zero_f32 = Fin 0"

definition one_f32 :: f32 where
  "one_f32 = Fin 1"

fun uminus_f32 :: "f32 \<Rightarrow> f32" where
  "uminus_f32 (Fin a) = Fin (- a)"
| "uminus_f32 PInf = NInf"
| "uminus_f32 NInf = PInf"
| "uminus_f32 NaN = NaN"

fun plus_f32 :: "f32 \<Rightarrow> f32 \<Rightarrow> f32" where
  "plus_f32 NaN v = NaN"
| "plus_f32 u NaN = NaN"
| "plus_f32 (Fin a) (Fin b) = Fin (a + b)"
| "plus_f32 PInf NInf = NaN"
| "plus_f32 NInf PInf = NaN"
| "plus_f32 PInf v = PInf"
| "plus_f32 NInf v = NInf"
| "plus_f32 u PInf = PInf"
| "plus_f32 u NInf = NInf"

definition minus_f32 :: "f32 \<Rightarrow> f32 \<Rightarrow> f32" where
  "minus_f32 u v = u + (- v)"

fun times_f32 :: "f32 \<Rightarrow> f32 \<Rightarrow> f32" where
  "times_f32 NaN v = NaN"
| "times_f32 u NaN = NaN"
| "times_f32 (Fin a) (Fin b) = Fin (a * b)"
| "times_f32 PInf PInf = PInf"
| "times_f32 PInf NInf = NInf"
| "times_f32 NInf PInf = NInf"
| "times_f32 NInf NInf = PInf"
| "times_f32 PInf (Fin b) = (if b = 0 then NaN else inf_of (0 < b))"
| "times_f32 NInf (Fin b) = (if b = 0 then NaN else inf_of (b < 0))"
| "times_f32 (Fin a) PInf = (if a = 0 then NaN else inf_of (0 < a))"
| "times_f32 (Fin a) NInf = (if a = 0 then NaN else inf_of (a < 0))"

fun divide_f32 :: "f32 \<Rightarrow> f32 \<Rightarrow> f32" where
  "divide_f32 NaN v = NaN"
| "divide_f32 u NaN = NaN"
| "divide_f32 (Fin a) (Fin b) =
     (if b = 0 then (if a = 0 then NaN else inf_of (0 < a)) else Fin (a / b))"
| "divide_f32 (Fin a) PInf = Fin 0"
| "divide_f32 (Fin a) NInf = Fin 0"
| "divide_f32 PInf (Fin b) = inf_of (0 \<le> b)"
| "divide_f32 NInf (Fin b) = inf_of (b < 0)"
| "divide_f32 PInf v = NaN"
| "divide_f32 NInf v = NaN"

definition inverse_f32 :: "f32 \<Rightarrow> f32" where
  "inverse_f32 v = divide (Fin 1) v"

fun less_f32 :: "f32 \<Rightarrow> f32 \<Rightarrow> bool" where
  "less_f32 NaN v = False"
| "less_f32 u NaN = False"
| "less_f32 (Fin a) (Fin b) = (a < b)"
| "less_f32 u NInf = False"
| "less_f32 PInf v = False"
| "less_f32 NInf v = True"
| "less_f32 u PInf = True"

fun less_eq_f32 :: "f32 \<Rightarrow> f32 \<Rightarrow> bool" where
  "less_eq_f32 NaN v = False"
| "less_eq_f32 u NaN = False"
| "less_eq_f32 (Fin a) (Fin b) = (a \<le> b)"
| "less_eq_f32 NInf v = True"
| "less_eq_f32 u PInf = True"
| "less_eq_f32 PInf v = False"
| "less_eq_f32 u NInf = False"

instance ..

end

text \<open>\<^verbatim>\<open>std::sqrt\<close> on a float.\<close>

fun fsqrt :: "f32 \<Rightarrow> f32" where
  "fsqrt (Fin a) = (if a < 0 then NaN else Fin (sqrt a))"
| "fsqrt PInf = PInf"
| "fsqrt NInf = NaN"
| "fsqrt NaN = NaN"

text \<open>
  \<^verbatim>\<open>std::min(a, b)\<close> is \<^verbatim>\<open>(b < a) ? b : a\<close> and \<^verbatim>\<open>std::max(a, b)\<close> is
  \<^verbatim>\<open>(a < b) ? b : a\<close>; with a NaN argument both return the first argument.
\<close>

definition std_min :: "f32 \<Rightarrow> f32 \<Rightarrow> f32" where
  "std_min a b = (if b < a then b else a)"

definition std_max :: "f32 \<Rightarrow> f32 \<Rightarrow> f32" where
  "std_max a b = (if a < b then b else a)"

section \<open>Vector3\<close>

record Vector3 =
  x :: f32
  y :: f32
  z :: f32

definition Vector3_ZERO :: Vector3 where
  "Vector3_ZERO = \<lparr>x = Fin 0, y = Fin 0, z = Fin 0\<rparr>"

text \<open>\<^verbatim>\<open>operator+\<close>, \<^verbatim>\<open>operator-\<close>, \<^verbatim>\<open>operator*\<close> and \<^verbatim>\<open>operator/\<close> (by a scalar).\<close>

definition Vector3_plus :: "Vector3 \<Rightarrow> Vector3 \<Rightarrow> Vector3" where
  "Vector3_plus u v = \<lparr>x = x u + x v, y = y u + y v, z = z u + z v\<rparr>"

definition Vector3_minus :: "Vector3 \<Rightarrow> Vector3 \<Rightarrow> Vector3" where
  "Vector3_minus u v = \<lparr>x = x u - x v, y = y u - y v, z = z u - z v\<rparr>"

definition Vector3_times :: "Vector3 \<Rightarrow> f32 \<Rightarrow> Vector3" where
  "Vector3_times u s = \<lparr>x = x u * s, y = y u * s, z = z u * s\<rparr>"

definition Vector3_divide :: "Vector3 \<Rightarrow> f32 \<Rightarrow> Vector3" where
  "Vector3_divide u s = \<lparr>x = x u / s, y = y u / s, z = z u / s\<rparr>"

definition dot :: "Vector3 \<Rightarrow> Vector3 \<Rightarrow> f32" where
  "dot u v = x u * x v + y u * y v + z u * z v"

definition magnitude :: "Vector3 \<Rightarrow> f32" where
  "magnitude u = fsqrt (x u * x u + y u * y u + z u * z u)"

definition normalized :: "Vector3 \<Rightarrow> Vector3" where
  "normalized u =
     (let mag = magnitude u
      in if Fin 0.0001 < mag then Vector3_divide u mag
         else \<lparr>x = Fin 0, y = Fin 0, z = Fin 0\<rparr>)"

definition finite_vec :: "Vector3 \<Rightarrow> bool" where
  "finite_vec u = (is_finite (x u) \<and> is_finite (y u) \<and> is_finite (z u))"

section \<open>PhysicsBody and Ball\<close>

text \<open>
  \<^verbatim>\<open>Ball\<close> derives from \<^verbatim>\<open>PhysicsBody\<close> and the world stores both behind
  \<^verbatim>\<open>PhysicsBody*\<close>. A body is one record with the fields of \<^verbatim>\<open>PhysicsBody\<close>; the
  field \<open>ball\<close> holds the members that \<^verbatim>\<open>Ball\<close> adds and is \<open>None\<close> for a plain
  \<^verbatim>\<open>PhysicsBody\<close>, so \<^verbatim>\<open>dynamic_cast<Ball*>\<close> is a test of that field.
\<close>

record Ball_members =
  color :: Vector3
  isHeld :: bool
  spinDamping :: f32
  ballId :: int

record PhysicsBody =
  position :: Vector3
  velocity :: Vector3
  acceleration :: Vector3
  force :: Vector3
  mass :: f32
  restitution :: f32
  friction :: f32
  radius :: f32
  isStatic :: bool
  isActive :: bool
  ball :: "Ball_members option"

text \<open>The constructor \<^verbatim>\<open>PhysicsBody(pos, m, r)\<close>.\<close>

definition PhysicsBody_new :: "Vector3 \<Rightarrow> f32 \<Rightarrow> f32 \<Rightarrow> PhysicsBody" where
  "PhysicsBody_new pos m r =
     \<lparr>position = pos,
      velocity = \<lparr>x = Fin 0, y = Fin 0, z = Fin 0\<rparr>,
      acceleration = \<lparr>x = Fin 0, y = Fin 0, z = Fin 0\<rparr>,
      force = \<lparr>x = Fin 0, y = Fin 0, z = Fin 0\<rparr>,
      mass = m,
      restitution = Fin 0.7,
      friction = Fin 0.5,
      radius = r,
      isStatic = False,
      isActive = True,
      ball = None\<rparr>"

text \<open>
  The constructor \<^verbatim>\<open>Ball(pos)\<close>. It increments the static counter \<^verbatim>\<open>ballCount\<close>,
  passed in and returned here, and draws a colour from a \<^verbatim>\<open>std::random_device\<close>,
  passed in as \<open>col\<close>.
\<close>

definition Ball_new :: "Vector3 \<Rightarrow> Vector3 \<Rightarrow> int \<Rightarrow> PhysicsBody \<times> int" where
  "Ball_new pos col ballCount =
     (let b = PhysicsBody_new pos (Fin 0.5) (Fin 0.25);
          ballCount' = ballCount + 1;
          b = b\<lparr>ball := Some \<lparr>color = col, isHeld = False, spinDamping = Fin 0.95,
                                ballId = ballCount'\<rparr>\<rparr>;
          b = b\<lparr>restitution := Fin 0.8\<rparr>;
          b = b\<lparr>friction := Fin 0.3\<rparr>
      in (b, ballCount'))"

definition applyForce :: "PhysicsBody \<Rightarrow> Vector3 \<Rightarrow> PhysicsBody" where
  "applyForce b f =
     (if \<not> isStatic b then b\<lparr>force := Vector3_plus (force b) f\<rparr> else b)"

definition applyImpulse :: "PhysicsBody \<Rightarrow> Vector3 \<Rightarrow> PhysicsBody" where
  "applyImpulse b impulse =
     (if \<not> isStatic b
      then b\<lparr>velocity := Vector3_plus (velocity b) (Vector3_divide impulse (mass b))\<rparr>
      else b)"

text \<open>\<^verbatim>\<open>PhysicsBody::update\<close>: one explicit Euler step.\<close>

definition PhysicsBody_update :: "PhysicsBody \<Rightarrow> f32 \<Rightarrow> PhysicsBody" where
  "PhysicsBody_update b deltaTime =
     (if \<not> isActive b \<or> isStatic b then b
      else
        let b = b\<lparr>acceleration := Vector3_divide (force b) (mass b)\<rparr>;
            b = b\<lparr>acceleration :=
                    Vector3_plus (acceleration b) \<lparr>x = Fin 0, y = - Fin 9.81, z = Fin 0\<rparr>\<rparr>;
            b = b\<lparr>velocity :=
                    Vector3_plus (velocity b) (Vector3_times (acceleration b) deltaTime)\<rparr>;
            b = b\<lparr>velocity := Vector3_times (velocity b) (Fin 0.999)\<rparr>;
            b = b\<lparr>position :=
                    Vector3_plus (position b) (Vector3_times (velocity b) deltaTime)\<rparr>;
            b = b\<lparr>force := Vector3_ZERO\<rparr>
        in b)"

definition getInverseMass :: "PhysicsBody \<Rightarrow> f32" where
  "getInverseMass b = (if isStatic b then Fin 0 else Fin 1 / mass b)"

definition isCollidingWith :: "PhysicsBody \<Rightarrow> PhysicsBody \<Rightarrow> bool" where
  "isCollidingWith b other =
     (if \<not> isActive b \<or> \<not> isActive other then False
      else
        let distance = magnitude (Vector3_minus (position b) (position other))
        in distance < radius b + radius other)"

definition setStatic :: "PhysicsBody \<Rightarrow> bool \<Rightarrow> PhysicsBody" where
  "setStatic b static_state =
     (let b = b\<lparr>isStatic := static_state\<rparr>
      in if isStatic b
         then b\<lparr>velocity := Vector3_ZERO, acceleration := Vector3_ZERO,
                force := Vector3_ZERO\<rparr>
         else b)"

text \<open>\<^verbatim>\<open>Ball::update\<close>, the override; \<open>bm\<close> are the members of the ball.\<close>

definition Ball_update :: "PhysicsBody \<Rightarrow> Ball_members \<Rightarrow> f32 \<Rightarrow> PhysicsBody" where
  "Ball_update b bm deltaTime =
     (if isHeld bm then b
      else
        let b = PhysicsBody_update b deltaTime;
            b = b\<lparr>velocity := Vector3_times (velocity b) (spinDamping bm)\<rparr>
        in if y (position b) < radius b
           then
             let b = b\<lparr>position := (position b)\<lparr>y := radius b\<rparr>\<rparr>
             in if y (velocity b) < Fin 0
                then b\<lparr>velocity := (velocity b)\<lparr>y := - y (velocity b) * restitution b\<rparr>\<rparr>
                else b
           else b)"

text \<open>
  \<^verbatim>\<open>Ball::setHeld\<close>. It is a member of \<^verbatim>\<open>Ball\<close>: a plain body has no such method and
  is returned as it is.
\<close>

definition setHeld :: "PhysicsBody \<Rightarrow> bool \<Rightarrow> PhysicsBody" where
  "setHeld b held =
     (case ball b of
        None \<Rightarrow> b
      | Some bm \<Rightarrow>
          let b = b\<lparr>ball := Some (bm\<lparr>isHeld := held\<rparr>)\<rparr>
          in if held
             then b\<lparr>velocity := Vector3_ZERO, acceleration := Vector3_ZERO,
                    force := Vector3_ZERO\<rparr>
             else b)"

text \<open>The virtual call \<^verbatim>\<open>body->update(dt)\<close>.\<close>

definition body_update :: "PhysicsBody \<Rightarrow> f32 \<Rightarrow> PhysicsBody" where
  "body_update b deltaTime =
     (case ball b of
        None \<Rightarrow> PhysicsBody_update b deltaTime
      | Some bm \<Rightarrow> Ball_update b bm deltaTime)"

section \<open>PhysicsWorld\<close>

text \<open>
  \<^verbatim>\<open>bodies\<close> is the vector of owned bodies, addressed by index. \<^verbatim>\<open>worldBounds\<close> is the
  array \<^verbatim>\<open>float[6]\<close>, in the order minX, maxX, minY, maxY, minZ, maxZ. The field
  \<open>rand_state\<close> is not a member of the class: it is the state of the C library's
  \<^verbatim>\<open>rand()\<close>, which \<^verbatim>\<open>resolveCollision\<close> calls, given as the sequence of values that the
  coming calls return.
\<close>

record PhysicsWorld =
  bodies :: "PhysicsBody list"
  gravity :: Vector3
  worldBounds :: "f32 list"
  timeStep :: f32
  maxSubsteps :: int
  rand_state :: "nat \<Rightarrow> nat"

text \<open>\<^verbatim>\<open>RAND_MAX\<close> of \<^verbatim>\<open><cstdlib>\<close>; the value is the one of glibc.\<close>

definition RAND_MAX :: nat where
  "RAND_MAX = 2147483647"

text \<open>One call of \<^verbatim>\<open>rand()\<close>: the value returned and the state after the call.\<close>

definition rand :: "(nat \<Rightarrow> nat) \<Rightarrow> nat \<times> (nat \<Rightarrow> nat)" where
  "rand rs = (rs 0, \<lambda>n. rs (Suc n))"

definition PhysicsWorld_new :: "(nat \<Rightarrow> nat) \<Rightarrow> PhysicsWorld" where
  "PhysicsWorld_new rs =
     \<lparr>bodies = [],
      gravity = \<lparr>x = Fin 0, y = - Fin 9.81, z = Fin 0\<rparr>,
      worldBounds = [- Fin 15, Fin 15, Fin 0, Fin 10, - Fin 15, Fin 15],
      timeStep = Fin 1 / Fin 60,
      maxSubsteps = 4,
      rand_state = rs\<rparr>"

definition addBody :: "PhysicsWorld \<Rightarrow> PhysicsBody \<Rightarrow> PhysicsWorld" where
  "addBody w body = w\<lparr>bodies := bodies w @ [body]\<rparr>"

text \<open>
  \<^verbatim>\<open>createBall\<close>; \<open>col\<close> and \<open>ballCount\<close> are passed on to the constructor of the
  ball.
\<close>

definition createBall :: "PhysicsWorld \<Rightarrow> Vector3 \<Rightarrow> Vector3 \<Rightarrow> int \<Rightarrow> PhysicsWorld \<times> int" where
  "createBall w pos col ballCount =
     (let (b, ballCount') = Ball_new pos col ballCount
      in (w\<lparr>bodies := bodies w @ [b]\<rparr>, ballCount'))"

text \<open>
  \<^verbatim>\<open>resolveCollision\<close>. The two pointers address distinct elements of \<^verbatim>\<open>bodies\<close>; the
  function returns both bodies and the state of \<^verbatim>\<open>rand()\<close>. C++ leaves the order of
  the three calls of \<^verbatim>\<open>rand()\<close> in the constructor's arguments unspecified; here they
  are taken from left to right.
\<close>

definition resolveCollision ::
  "PhysicsBody \<Rightarrow> PhysicsBody \<Rightarrow> (nat \<Rightarrow> nat) \<Rightarrow> PhysicsBody \<times> PhysicsBody \<times> (nat \<Rightarrow> nat)" where
  "resolveCollision bodyA bodyB rs =
     (let normal = normalized (Vector3_minus (position bodyA) (position bodyB));
          relativeVelocity = Vector3_minus (velocity bodyA) (velocity bodyB);
          velocityAlongNormal = dot relativeVelocity normal
      in if velocityAlongNormal > Fin 0 then (bodyA, bodyB, rs)
         else
           let restitution' = std_min (restitution bodyA) (restitution bodyB);
               impulseScalar = (- (Fin 1 + restitution')) * velocityAlongNormal;
               impulseScalar = impulseScalar / (getInverseMass bodyA + getInverseMass bodyB);
               impulse = Vector3_times normal impulseScalar;
               bodyA = applyImpulse bodyA (Vector3_times impulse (getInverseMass bodyA));
               bodyB = applyImpulse bodyB (Vector3_times impulse (- getInverseMass bodyB));
               penetrationDepth =
                 (radius bodyA + radius bodyB)
                 - magnitude (Vector3_minus (position bodyA) (position bodyB));
               (bodyA, bodyB) =
                 (if penetrationDepth > Fin 0
                  then
                    let correctionPercent = Fin 0.8;
                        correctionSlop = Fin 0.01;
                        correction =
                          Vector3_times normal
                            (correctionPercent
                             * std_max (penetrationDepth - correctionSlop) (Fin 0)
                             / (getInverseMass bodyA + getInverseMass bodyB))
                    in (bodyA\<lparr>position :=
                                 Vector3_plus (position bodyA)
                                   (Vector3_times correction (getInverseMass bodyA))\<rparr>,
                        bodyB\<lparr>position :=
                                 Vector3_minus (position bodyB)
                                   (Vector3_times correction (getInverseMass bodyB))\<rparr>)
                  else (bodyA, bodyB))
           in if ball bodyA \<noteq> None \<and> ball bodyB \<noteq> None
              then
                let randomFactor = Fin 0.1;
                    (r1, rs) = rand rs;
                    (r2, rs) = rand rs;
                    (r3, rs) = rand rs;
                    randomOffset =
                      \<lparr>x = (Fin (real r1) / Fin (real RAND_MAX) - Fin 0.5) * randomFactor,
                       y = (Fin (real r2) / Fin (real RAND_MAX) - Fin 0.5) * randomFactor,
                       z = (Fin (real r3) / Fin (real RAND_MAX) - Fin 0.5) * randomFactor\<rparr>
                in (bodyA\<lparr>velocity := Vector3_plus (velocity bodyA) randomOffset\<rparr>,
                    bodyB\<lparr>velocity := Vector3_minus (velocity bodyB) randomOffset\<rparr>,
                    rs)
              else (bodyA, bodyB, rs))"

text \<open>
  \<^verbatim>\<open>handleCollisions\<close> changes the elements of \<^verbatim>\<open>bodies\<close> and the state of
  \<^verbatim>\<open>rand()\<close>, and nothing else of the world. \<open>collide_pair\<close> is the body of the inner
  loop for the indices \<open>i\<close> and \<open>j\<close>, which the loops keep below the size of
  \<^verbatim>\<open>bodies\<close>; \<open>collide_all\<close> is the two loops.
\<close>

definition collide_pair ::
  "nat \<Rightarrow> nat \<Rightarrow> PhysicsBody list \<times> (nat \<Rightarrow> nat) \<Rightarrow> PhysicsBody list \<times> (nat \<Rightarrow> nat)" where
  "collide_pair i j st =
     (let (bs, rs) = st;
          bodyA = bs ! i;
          bodyB = bs ! j
      in if isCollidingWith bodyA bodyB
         then
           let (bodyA, bodyB, rs) = resolveCollision bodyA bodyB rs
           in (bs[i := bodyA, j := bodyB], rs)
         else (bs, rs))"

definition collide_all ::
  "PhysicsBody list \<times> (nat \<Rightarrow> nat) \<Rightarrow> PhysicsBody list \<times> (nat \<Rightarrow> nat)" where
  "collide_all st =
     fold (\<lambda>i st. fold (\<lambda>j st. collide_pair i j st) [i + 1 ..< length (fst st)] st)
       [0 ..< length (fst st)] st"

definition handleCollisions :: "PhysicsWorld \<Rightarrow> PhysicsWorld" where
  "handleCollisions w =
     (let (bs, rs) = collide_all (bodies w, rand_state w)
      in w\<lparr>bodies := bs, rand_state := rs\<rparr>)"

text \<open>
  The pairs of indices on which \<^verbatim>\<open>handleCollisions\<close> calls \<^verbatim>\<open>resolveCollision\<close>, in the
  order of the calls: the same two loops, keeping the pair of every call beside the
  state.
\<close>

definition collide_pair_logged ::
  "nat \<Rightarrow> nat \<Rightarrow> (PhysicsBody list \<times> (nat \<Rightarrow> nat)) \<times> (nat \<times> nat) list
     \<Rightarrow> (PhysicsBody list \<times> (nat \<Rightarrow> nat)) \<times> (nat \<times> nat) list" where
  "collide_pair_logged i j sl =
     (let (st, calls) = sl
      in (collide_pair i j st,
          if isCollidingWith (fst st ! i) (fst st ! j) then calls @ [(i, j)] else calls))"

definition resolved_pairs :: "PhysicsBody list \<times> (nat \<Rightarrow> nat) \<Rightarrow> (nat \<times> nat) list" where
  "resolved_pairs st =
     snd (fold (\<lambda>i sl. fold (\<lambda>j sl. collide_pair_logged i j sl)
                         [i + 1 ..< length (fst (fst sl))] sl)
            [0 ..< length (fst st)] (st, []))"

text \<open>
  \<^verbatim>\<open>handleWorldBoundaries\<close>: \<open>boundary_body\<close> is the body of the loop, for one element
  of \<^verbatim>\<open>bodies\<close> and the array \<open>wb\<close> of the bounds. Its three blocks, for the X, Y
  and Z boundaries, are \<open>check_x\<close>, \<open>check_y\<close> and \<open>check_z\<close>; each takes and returns
  the body and the local flag \<^verbatim>\<open>collided\<close>.
\<close>

definition check_x :: "f32 list \<Rightarrow> PhysicsBody \<times> bool \<Rightarrow> PhysicsBody \<times> bool" where
  "check_x wb st =
     (let (body, collided) = st
      in if x (position body) - radius body < wb ! 0
         then
           let body = body\<lparr>position := (position body)\<lparr>x := wb ! 0 + radius body\<rparr>\<rparr>
           in if x (velocity body) < Fin 0
              then (body\<lparr>velocity :=
                           (velocity body)\<lparr>x := (- x (velocity body)) * restitution body\<rparr>\<rparr>,
                    True)
              else (body, collided)
         else if x (position body) + radius body > wb ! 1
         then
           let body = body\<lparr>position := (position body)\<lparr>x := wb ! 1 - radius body\<rparr>\<rparr>
           in if x (velocity body) > Fin 0
              then (body\<lparr>velocity :=
                           (velocity body)\<lparr>x := (- x (velocity body)) * restitution body\<rparr>\<rparr>,
                    True)
              else (body, collided)
         else (body, collided))"

definition check_y :: "f32 list \<Rightarrow> PhysicsBody \<times> bool \<Rightarrow> PhysicsBody \<times> bool" where
  "check_y wb st =
     (let (body, collided) = st
      in if y (position body) - radius body < wb ! 2
         then
           let body = body\<lparr>position := (position body)\<lparr>y := wb ! 2 + radius body\<rparr>\<rparr>
           in if y (velocity body) < Fin 0
              then (body\<lparr>velocity :=
                           (velocity body)\<lparr>y := (- y (velocity body)) * restitution body\<rparr>\<rparr>,
                    True)
              else (body, collided)
         else if y (position body) + radius body > wb ! 3
         then
           let body = body\<lparr>position := (position body)\<lparr>y := wb ! 3 - radius body\<rparr>\<rparr>
           in if y (velocity body) > Fin 0
              then (body\<lparr>velocity :=
                           (velocity body)\<lparr>y := (- y (velocity body)) * restitution body\<rparr>\<rparr>,
                    True)
              else (body, collided)
         else (body, collided))"

definition check_z :: "f32 list \<Rightarrow> PhysicsBody \<times> bool \<Rightarrow> PhysicsBody \<times> bool" where
  "check_z wb st =
     (let (body, collided) = st
      in if z (position body) - radius body < wb ! 4
         then
           let body = body\<lparr>position := (position body)\<lparr>z := wb ! 4 + radius body\<rparr>\<rparr>
           in if z (velocity body) < Fin 0
              then (body\<lparr>velocity :=
                           (velocity body)\<lparr>z := (- z (velocity body)) * restitution body\<rparr>\<rparr>,
                    True)
              else (body, collided)
         else if z (position body) + radius body > wb ! 5
         then
           let body = body\<lparr>position := (position body)\<lparr>z := wb ! 5 - radius body\<rparr>\<rparr>
           in if z (velocity body) > Fin 0
              then (body\<lparr>velocity :=
                           (velocity body)\<lparr>z := (- z (velocity body)) * restitution body\<rparr>\<rparr>,
                    True)
              else (body, collided)
         else (body, collided))"

definition boundary_body :: "f32 list \<Rightarrow> PhysicsBody \<Rightarrow> PhysicsBody" where
  "boundary_body wb body =
     (if isStatic body then body
      else
        let collided = False;
            (body, collided) = check_x wb (body, collided);
            (body, collided) = check_y wb (body, collided);
            (body, collided) = check_z wb (body, collided)
        in if y (position body) \<le> wb ! 2 + radius body + Fin 0.1 \<and> collided
           then
             let body = body\<lparr>velocity :=
                              (velocity body)\<lparr>x := x (velocity body) * (Fin 1 - friction body)\<rparr>\<rparr>;
                 body = body\<lparr>velocity :=
                              (velocity body)\<lparr>z := z (velocity body) * (Fin 1 - friction body)\<rparr>\<rparr>
             in body
           else body)"

definition handleWorldBoundaries :: "PhysicsWorld \<Rightarrow> PhysicsWorld" where
  "handleWorldBoundaries w = w\<lparr>bodies := map (boundary_body (worldBounds w)) (bodies w)\<rparr>"

text \<open>
  \<^verbatim>\<open>update\<close>: \<open>substep\<close> is the body of the \<^verbatim>\<open>while\<close> loop for a step of size
  \<open>currentStep\<close>, \<open>update_loop\<close> is the loop, with the local variables
  \<^verbatim>\<open>remainingTime\<close> and \<^verbatim>\<open>substeps\<close> as arguments.
\<close>

definition substep :: "f32 \<Rightarrow> PhysicsWorld \<Rightarrow> PhysicsWorld" where
  "substep currentStep w =
     (let w = w\<lparr>bodies := map (\<lambda>body. body_update body currentStep) (bodies w)\<rparr>;
          w = handleCollisions w;
          w = handleWorldBoundaries w
      in w)"

function update_loop :: "PhysicsWorld \<Rightarrow> f32 \<Rightarrow> int \<Rightarrow> PhysicsWorld" where
  "update_loop w remainingTime substeps =
     (if remainingTime > Fin 0 \<and> substeps < maxSubsteps w
      then
        let currentStep = std_min remainingTime (timeStep w);
            w = substep currentStep w
        in update_loop w (remainingTime - currentStep) (substeps + 1)
      else w)"
  by pat_completeness auto
termination
  by (relation "measure (\<lambda>(w, remainingTime, substeps). nat (maxSubsteps w - substeps))")
     (auto simp: substep_def handleCollisions_def handleWorldBoundaries_def Let_def
           split: prod.splits)

definition update :: "PhysicsWorld \<Rightarrow> f32 \<Rightarrow> PhysicsWorld" where
  "update w deltaTime = update_loop w deltaTime 0"

text \<open>
  The sizes of the substeps that the loop of \<^verbatim>\<open>update\<close> runs, in order: the same loop,
  keeping \<^verbatim>\<open>currentStep\<close> of every iteration. The loop reads \<^verbatim>\<open>timeStep\<close> and
  \<^verbatim>\<open>maxSubsteps\<close>, which no substep changes.
\<close>

function step_sizes :: "f32 \<Rightarrow> int \<Rightarrow> f32 \<Rightarrow> int \<Rightarrow> f32 list" where
  "step_sizes ts ms remainingTime substeps =
     (if remainingTime > Fin 0 \<and> substeps < ms
      then
        let currentStep = std_min remainingTime ts
        in currentStep # step_sizes ts ms (remainingTime - currentStep) (substeps + 1)
      else [])"
  by pat_completeness auto
termination
  by (relation "measure (\<lambda>(ts, ms, remainingTime, substeps). nat (ms - substeps))") auto

text \<open>
  The calls of \<^verbatim>\<open>resolveCollision\<close> during one substep, during the substeps of the given
  sizes, during one \<^verbatim>\<open>update\<close>, and during a sequence of \<^verbatim>\<open>update\<close> calls.
\<close>

definition substep_pairs :: "f32 \<Rightarrow> PhysicsWorld \<Rightarrow> (nat \<times> nat) list" where
  "substep_pairs currentStep w =
     resolved_pairs (map (\<lambda>body. body_update body currentStep) (bodies w), rand_state w)"

fun substeps_pairs :: "f32 list \<Rightarrow> PhysicsWorld \<Rightarrow> (nat \<times> nat) list" where
  "substeps_pairs [] w = []"
| "substeps_pairs (cs # css) w = substep_pairs cs w @ substeps_pairs css (substep cs w)"

definition update_pairs :: "PhysicsWorld \<Rightarrow> f32 \<Rightarrow> (nat \<times> nat) list" where
  "update_pairs w deltaTime =
     substeps_pairs (step_sizes (timeStep w) (maxSubsteps w) deltaTime 0) w"

fun updates_pairs :: "PhysicsWorld \<Rightarrow> f32 list \<Rightarrow> (nat \<times> nat) list" where
  "updates_pairs w [] = []"
| "updates_pairs w (dt # dts) = update_pairs w dt @ updates_pairs (update w dt) dts"

section \<open>Properties of a body in the room\<close>

text \<open>A ball that is held: the body is a \<^verbatim>\<open>Ball\<close> and its \<^verbatim>\<open>isHeld\<close> is set.\<close>

definition is_held_ball :: "PhysicsBody \<Rightarrow> bool" where
  "is_held_ball b = (case ball b of None \<Rightarrow> False | Some bm \<Rightarrow> isHeld bm)"

text \<open>
  The position of the body lies within the bounds \<open>wb\<close> shrunk by its radius, on all
  three axes.
\<close>

definition within_bounds :: "f32 list \<Rightarrow> PhysicsBody \<Rightarrow> bool" where
  "within_bounds wb b =
     (wb ! 0 + radius b \<le> x (position b) \<and> x (position b) \<le> wb ! 1 - radius b \<and>
      wb ! 2 + radius b \<le> y (position b) \<and> y (position b) \<le> wb ! 3 - radius b \<and>
      wb ! 4 + radius b \<le> z (position b) \<and> z (position b) \<le> wb ! 5 - radius b)"

text \<open>
  None of the six tests of \<^verbatim>\<open>handleWorldBoundaries\<close> holds for the body, as the code
  computes them.
\<close>

definition clear_of_walls :: "f32 list \<Rightarrow> PhysicsBody \<Rightarrow> bool" where
  "clear_of_walls wb b =
     (\<not> x (position b) - radius b < wb ! 0 \<and> \<not> x (position b) + radius b > wb ! 1 \<and>
      \<not> y (position b) - radius b < wb ! 2 \<and> \<not> y (position b) + radius b > wb ! 3 \<and>
      \<not> z (position b) - radius b < wb ! 4 \<and> \<not> z (position b) + radius b > wb ! 5)"

text \<open>The index \<open>k\<close> is one of the two indices of a pair of the list.\<close>

definition in_pair :: "nat \<Rightarrow> (nat \<times> nat) list \<Rightarrow> bool" where
  "in_pair k ps = (k \<in> fst ` set ps \<union> snd ` set ps)"

text \<open>
  From a state of the collision loops and the calls so far to a later one: the list of
  bodies keeps its length, calls are only added, and a body whose index is in none of
  the added calls is the same.
\<close>

definition keeps_unlogged ::
  "(PhysicsBody list \<times> (nat \<Rightarrow> nat)) \<times> (nat \<times> nat) list
     \<Rightarrow> (PhysicsBody list \<times> (nat \<Rightarrow> nat)) \<times> (nat \<times> nat) list \<Rightarrow> bool" where
  "keeps_unlogged sl sl' =
     (length (fst (fst sl')) = length (fst (fst sl)) \<and>
      (\<exists>new. snd sl' = snd sl @ new \<and>
         (\<forall>k. \<not> in_pair k new \<longrightarrow> fst (fst sl') ! k = fst (fst sl) ! k)))"

text \<open>
  The coordinate \<open>p\<close> of a body of radius \<open>r\<close> is settled on an axis with the bounds
  \<open>lo\<close> and \<open>hi\<close>: it is one of the two values that \<^verbatim>\<open>handleWorldBoundaries\<close> assigns,
  or neither of the two tests of the axis holds for it.
\<close>

definition axis_settled :: "f32 \<Rightarrow> f32 \<Rightarrow> f32 \<Rightarrow> f32 \<Rightarrow> bool" where
  "axis_settled lo hi r p =
     (p = lo + r \<or> p = hi - r \<or> (\<not> p - r < lo \<and> \<not> p + r > hi))"

text \<open>A value, and every component of a vector, between two finite bounds.\<close>

definition in_range :: "real \<Rightarrow> real \<Rightarrow> f32 \<Rightarrow> bool" where
  "in_range lo hi v = (Fin lo \<le> v \<and> v \<le> Fin hi)"

definition vec_in_range :: "real \<Rightarrow> real \<Rightarrow> Vector3 \<Rightarrow> bool" where
  "vec_in_range lo hi u = (in_range lo hi (x u) \<and> in_range lo hi (y u) \<and> in_range lo hi (z u))"

text \<open>
  What each of the three blocks of \<open>boundary_body\<close> assigns to the coordinate \<open>p\<close> of
  a body of radius \<open>r\<close>, for the bounds \<open>lo\<close> and \<open>hi\<close> of the axis.
\<close>

definition clamp_axis :: "f32 \<Rightarrow> f32 \<Rightarrow> f32 \<Rightarrow> f32 \<Rightarrow> f32" where
  "clamp_axis lo hi r p =
     (if p - r < lo then lo + r else if p + r > hi then hi - r else p)"

section \<open>Example inputs\<close>

text \<open>
  Two static bodies of radius 1 whose centres are 1 apart, as \<^verbatim>\<open>PhysicsBody(pos, 1, 1)\<close>
  followed by \<^verbatim>\<open>setStatic(true)\<close> leaves them.
\<close>

definition static_A :: PhysicsBody where
  "static_A = setStatic (PhysicsBody_new \<lparr>x = Fin 0, y = Fin 0, z = Fin 0\<rparr> (Fin 1) (Fin 1)) True"

definition static_B :: PhysicsBody where
  "static_B = setStatic (PhysicsBody_new \<lparr>x = Fin 1, y = Fin 0, z = Fin 0\<rparr> (Fin 1) (Fin 1)) True"

text \<open>
  Two bodies of mass 0.5 and radius 1 whose centres are 1 apart, the first moving
  towards the second with velocity (1, 0, 0).
\<close>

definition moving_A :: PhysicsBody where
  "moving_A = (PhysicsBody_new \<lparr>x = Fin 0, y = Fin 0, z = Fin 0\<rparr> (Fin 0.5) (Fin 1))
                \<lparr>velocity := \<lparr>x = Fin 1, y = Fin 0, z = Fin 0\<rparr>\<rparr>"

definition resting_B :: PhysicsBody where
  "resting_B = PhysicsBody_new \<lparr>x = Fin 1, y = Fin 0, z = Fin 0\<rparr> (Fin 0.5) (Fin 1)"

text \<open>A colour for a ball.\<close>

definition grey :: Vector3 where
  "grey = \<lparr>x = Fin 0.5, y = Fin 0.5, z = Fin 0.5\<rparr>"

text \<open>A sequence of values for \<^verbatim>\<open>rand()\<close>.\<close>

definition rand_zero :: "nat \<Rightarrow> nat" where
  "rand_zero n = 0"

text \<open>The default world with the single body \<open>b\<close>.\<close>

definition single_body_world :: "PhysicsBody \<Rightarrow> PhysicsWorld" where
  "single_body_world b = addBody (PhysicsWorld_new rand_zero) b"

text \<open>A static body of radius 1 at (100, 5, 0), outside the default room.\<close>

definition static_far :: PhysicsBody where
  "static_far =
     setStatic (PhysicsBody_new \<lparr>x = Fin 100, y = Fin 5, z = Fin 0\<rparr> (Fin 1) (Fin 1)) True"

text \<open>A body of radius 1 at (100, 5, 0), outside the default room, at rest.\<close>

definition dynamic_far :: PhysicsBody where
  "dynamic_far = PhysicsBody_new \<lparr>x = Fin 100, y = Fin 5, z = Fin 0\<rparr> (Fin 1) (Fin 1)"

text \<open>
  A ball that was created at (20, 5, 0), outside the default room, and is held.
\<close>

definition held_far :: PhysicsBody where
  "held_far = setHeld (fst (Ball_new \<lparr>x = Fin 20, y = Fin 5, z = Fin 0\<rparr> grey 0)) True"

text \<open>
  An inactive body of radius 0.5 at (20, 5, 0), outside the default room, with velocity
  (1, 0, 0), and an inactive ball at (0, 5, 0), inside the room, with the same velocity.
\<close>

definition inactive_far :: PhysicsBody where
  "inactive_far =
     (PhysicsBody_new \<lparr>x = Fin 20, y = Fin 5, z = Fin 0\<rparr> (Fin 1) (Fin 0.5))
       \<lparr>velocity := \<lparr>x = Fin 1, y = Fin 0, z = Fin 0\<rparr>, isActive := False\<rparr>"

definition inactive_ball :: PhysicsBody where
  "inactive_ball =
     (fst (Ball_new \<lparr>x = Fin 0, y = Fin 5, z = Fin 0\<rparr> grey 0))
       \<lparr>velocity := \<lparr>x = Fin 1, y = Fin 0, z = Fin 0\<rparr>, isActive := False\<rparr>"

text \<open>
  A held ball at floor level, at (0, 0.25, 0), and a free ball at rest on the floor
  beside it, at (0.3, 0.25, 0): the two balls, of radius 0.25, overlap.
\<close>

definition held_low :: PhysicsBody where
  "held_low = setHeld (fst (Ball_new \<lparr>x = Fin 0, y = Fin 0.25, z = Fin 0\<rparr> grey 0)) True"

definition resting_ball :: PhysicsBody where
  "resting_ball = fst (Ball_new \<lparr>x = Fin 0.3, y = Fin 0.25, z = Fin 0\<rparr> grey 1)"

text \<open>The default world with the two bodies \<open>a\<close> and \<open>b\<close>.\<close>

definition two_body_world :: "PhysicsBody \<Rightarrow> PhysicsBody \<Rightarrow> PhysicsWorld" where
  "two_body_world a b = addBody (addBody (PhysicsWorld_new rand_zero) a) b"

text \<open>
  A free ball at rest on the floor at (2, 0.25, 0), away from the held ball \<open>held_low\<close>.
\<close>

definition resting_far :: PhysicsBody where
  "resting_far = fst (Ball_new \<lparr>x = Fin 2, y = Fin 0.25, z = Fin 0\<rparr> grey 1)"

text \<open>
  Two bodies of radius 1 with the same centre (1, 2, 3), the first of mass 0, as
  \<^verbatim>\<open>PhysicsBody(pos, 0, 1)\<close> constructs it, the second of mass 1.
\<close>

definition massless_A :: PhysicsBody where
  "massless_A = PhysicsBody_new \<lparr>x = Fin 1, y = Fin 2, z = Fin 3\<rparr> (Fin 0) (Fin 1)"

definition unit_B :: PhysicsBody where
  "unit_B = PhysicsBody_new \<lparr>x = Fin 1, y = Fin 2, z = Fin 3\<rparr> (Fin 1) (Fin 1)"

section \<open>The substep loop\<close>

declare update_loop.simps [simp del]
declare step_sizes.simps [simp del]

lemma not_pos_of_le_zero: "dt \<le> Fin 0 \<Longrightarrow> \<not> (dt > Fin 0)"
  by (cases dt) auto

lemma substep_timeStep [simp]: "timeStep (substep cs w) = timeStep w"
  by (simp add: substep_def handleCollisions_def handleWorldBoundaries_def Let_def
           split: prod.splits)

lemma substep_maxSubsteps [simp]: "maxSubsteps (substep cs w) = maxSubsteps w"
  by (simp add: substep_def handleCollisions_def handleWorldBoundaries_def Let_def
           split: prod.splits)

text \<open>The loop of \<^verbatim>\<open>update\<close> runs \<open>substep\<close> once for every entry of \<open>step_sizes\<close>.\<close>

lemma update_loop_fold:
  "update_loop w r s = fold substep (step_sizes (timeStep w) (maxSubsteps w) r s) w"
proof (induction w r s rule: update_loop.induct)
  case (1 w r s)
  show ?case
  proof (cases "r > Fin 0 \<and> s < maxSubsteps w")
    case True
    let ?cs = "std_min r (timeStep w)"
    have "update_loop w r s = update_loop (substep ?cs w) (r - ?cs) (s + 1)"
      using True by (subst update_loop.simps) (simp add: Let_def)
    also have "\<dots> = fold substep
        (step_sizes (timeStep w) (maxSubsteps w) (r - ?cs) (s + 1)) (substep ?cs w)"
      using "1.IH" [OF True refl refl] by simp
    also have "\<dots> = fold substep (step_sizes (timeStep w) (maxSubsteps w) r s) w"
      using True by (subst (2) step_sizes.simps) (simp add: Let_def)
    finally show ?thesis .
  next
    case False
    then show ?thesis
      by (subst update_loop.simps, subst step_sizes.simps) auto
  qed
qed

text \<open>
  With more time left than the remaining substeps can consume, every remaining substep
  has the full size.
\<close>

lemma step_sizes_full:
  "0 < ts \<Longrightarrow> s \<le> ms \<Longrightarrow> r > Fin (real_of_int (ms - s) * ts) \<Longrightarrow>
     step_sizes (Fin ts) ms r s = replicate (nat (ms - s)) (Fin ts)"
proof (induction "Fin ts" ms r s rule: step_sizes.induct)
  case (1 ms r s)
  show ?case
  proof (cases "s < ms")
    case False
    with "1.prems" show ?thesis by (subst step_sizes.simps) simp
  next
    case True
    then have k: "1 \<le> real_of_int (ms - s)" by simp
    have big: "r > Fin ts"
    proof -
      from k \<open>0 < ts\<close> have "ts \<le> real_of_int (ms - s) * ts" by simp
      with "1.prems"(3) show ?thesis by (cases r) auto
    qed
    then have pos: "r > Fin 0" using \<open>0 < ts\<close> by (cases r) auto
    have cs: "std_min r (Fin ts) = Fin ts" using big by (simp add: std_min_def)
    have rest: "r - Fin ts > Fin (real_of_int (ms - (s + 1)) * ts)"
      using "1.prems"(3) by (cases r) (auto simp: minus_f32_def algebra_simps)
    have "step_sizes (Fin ts) ms (r - Fin ts) (s + 1) = replicate (nat (ms - (s + 1))) (Fin ts)"
      using "1.hyps" [of "Fin ts"] pos True cs "1.prems"(1) rest by simp
    moreover have "nat (ms - s) = Suc (nat (ms - (s + 1)))" using True by simp
    ultimately show ?thesis
      using pos True cs by (subst step_sizes.simps) (simp add: Let_def)
  qed
qed

lemma fold_plus_replicate:
  "fold (+) (replicate n (Fin ts)) (Fin a) = Fin (a + real n * ts)"
  by (induction n arbitrary: a) (simp_all add: algebra_simps)

text \<open>
  C5. \<^verbatim>\<open>update(dt)\<close> runs one substep for every entry of \<open>step_sizes\<close>, each of size
  \<^verbatim>\<open>min(remainingTime, timeStep)\<close>, while time remains and fewer than \<^verbatim>\<open>maxSubsteps\<close>
  substeps have run. When \<open>dt\<close> exceeds \<^verbatim>\<open>maxSubsteps * timeStep\<close>, exactly
  \<^verbatim>\<open>maxSubsteps\<close> substeps of size \<^verbatim>\<open>timeStep\<close> run, and the simulated time, the sum of
  their sizes, is \<^verbatim>\<open>maxSubsteps * timeStep\<close>, strictly less than \<open>dt\<close>.
\<close>

theorem update_substep_cap:
  assumes "timeStep w = Fin ts" and "0 < ts" and "0 \<le> maxSubsteps w"
    and "dt > Fin (real_of_int (maxSubsteps w) * ts)"
  shows "update w dt = fold substep (step_sizes (timeStep w) (maxSubsteps w) dt 0) w
       \<and> step_sizes (timeStep w) (maxSubsteps w) dt 0
           = replicate (nat (maxSubsteps w)) (timeStep w)
       \<and> fold (+) (step_sizes (timeStep w) (maxSubsteps w) dt 0) (Fin 0)
           = Fin (real_of_int (maxSubsteps w) * ts)
       \<and> fold (+) (step_sizes (timeStep w) (maxSubsteps w) dt 0) (Fin 0) < dt"
proof -
  have sizes: "step_sizes (timeStep w) (maxSubsteps w) dt 0
                 = replicate (nat (maxSubsteps w)) (Fin ts)"
    using step_sizes_full [of ts 0 "maxSubsteps w" dt] assms by simp
  have "fold (+) (replicate (nat (maxSubsteps w)) (Fin ts)) (Fin 0)
          = Fin (0 + real (nat (maxSubsteps w)) * ts)"
    by (rule fold_plus_replicate)
  also have "\<dots> = Fin (real_of_int (maxSubsteps w) * ts)"
    using assms(3) by simp
  finally have total: "fold (+) (step_sizes (timeStep w) (maxSubsteps w) dt 0) (Fin 0)
                 = Fin (real_of_int (maxSubsteps w) * ts)"
    by (simp only: sizes)
  show ?thesis
    using sizes total assms(1,4) by (simp add: update_def update_loop_fold)
qed

theorem update_substep_cap_witness:
  "timeStep (addBody (PhysicsWorld_new rand_zero) (PhysicsBody_new Vector3_ZERO (Fin 1) (Fin 1)))
     = Fin (1 / 60)
   \<and> Fin 1 > Fin (real_of_int 4 * (1 / 60))
   \<and> step_sizes (Fin (1 / 60)) 4 (Fin 1) 0
       = [Fin (1 / 60), Fin (1 / 60), Fin (1 / 60), Fin (1 / 60)]
   \<and> fold (+) (step_sizes (Fin (1 / 60)) 4 (Fin 1) 0) (Fin 0) < Fin 1"
proof -
  let ?w = "addBody (PhysicsWorld_new rand_zero) (PhysicsBody_new Vector3_ZERO (Fin 1) (Fin 1))"
  have ts: "timeStep ?w = Fin (1 / 60)"
    by (simp add: addBody_def PhysicsWorld_new_def)
  have ms: "maxSubsteps ?w = 4"
    by (simp add: addBody_def PhysicsWorld_new_def)
  have pos: "(0::real) < 1 / 60" by simp
  have nonneg: "0 \<le> maxSubsteps ?w" by (simp add: ms)
  have long: "Fin 1 > Fin (real_of_int (maxSubsteps ?w) * (1 / 60))" by (simp add: ms)
  have four: "replicate (nat 4) (Fin (1 / 60)) = [Fin (1 / 60), Fin (1 / 60), Fin (1 / 60), Fin (1 / 60)]"
    by (simp add: numeral_eq_Suc)
  from update_substep_cap [OF ts pos nonneg long] show ?thesis
    using ts four by (simp add: ms)
qed

text \<open>
  C10. For \<open>dt \<le> 0\<close> the loop of \<^verbatim>\<open>update\<close> runs no substep: the world, and so every
  field of every body, is unchanged, and no collision or boundary resolution runs.
\<close>

theorem update_nonpositive:
  "dt \<le> Fin 0 \<Longrightarrow>
     update w dt = w \<and> step_sizes (timeStep w) (maxSubsteps w) dt 0 = []"
  by (simp add: update_def update_loop.simps step_sizes.simps not_pos_of_le_zero)

theorem update_nonpositive_witness:
  "- Fin 1 \<le> Fin 0 \<and>
   update (addBody (PhysicsWorld_new rand_zero) (PhysicsBody_new Vector3_ZERO (Fin 1) (Fin 1)))
       (- Fin 1)
     = addBody (PhysicsWorld_new rand_zero) (PhysicsBody_new Vector3_ZERO (Fin 1) (Fin 1))"
  using update_nonpositive [of "- Fin 1"
      "addBody (PhysicsWorld_new rand_zero) (PhysicsBody_new Vector3_ZERO (Fin 1) (Fin 1))"]
  by simp

section \<open>Integration of a body\<close>

text \<open>
  C4. For an active body that is not static, \<^verbatim>\<open>PhysicsBody::update(dt)\<close> sets
  acceleration to \<open>force / mass + (0, -9.81, 0)\<close>, adds \<open>acceleration * dt\<close> to the
  velocity, scales the velocity by 0.999, adds \<open>velocity * dt\<close> to the position, and
  clears the force; it changes nothing else. For an inactive or static body it changes
  nothing.
\<close>

theorem PhysicsBody_update_step:
  "(isActive b \<and> \<not> isStatic b \<longrightarrow>
      PhysicsBody_update b dt =
        (let acc = Vector3_plus (Vector3_divide (force b) (mass b))
                     \<lparr>x = Fin 0, y = - Fin 9.81, z = Fin 0\<rparr>;
             vel = Vector3_times (Vector3_plus (velocity b) (Vector3_times acc dt)) (Fin 0.999);
             pos = Vector3_plus (position b) (Vector3_times vel dt)
         in b\<lparr>position := pos, velocity := vel, acceleration := acc, force := Vector3_ZERO\<rparr>))
   \<and> (\<not> isActive b \<or> isStatic b \<longrightarrow> PhysicsBody_update b dt = b)"
  by (simp add: PhysicsBody_update_def Let_def)

theorem PhysicsBody_update_step_witness:
  "position (PhysicsBody_update (PhysicsBody_new Vector3_ZERO (Fin 1) (Fin 1)) (Fin 1))
     = \<lparr>x = Fin 0, y = Fin (- 9.80019), z = Fin 0\<rparr>
   \<and> velocity (PhysicsBody_update (PhysicsBody_new Vector3_ZERO (Fin 1) (Fin 1)) (Fin 1))
     = \<lparr>x = Fin 0, y = Fin (- 9.80019), z = Fin 0\<rparr>
   \<and> PhysicsBody_update ((PhysicsBody_new Vector3_ZERO (Fin 1) (Fin 1))\<lparr>isActive := False\<rparr>) (Fin 1)
     = (PhysicsBody_new Vector3_ZERO (Fin 1) (Fin 1))\<lparr>isActive := False\<rparr>"
  using PhysicsBody_update_step [of "PhysicsBody_new Vector3_ZERO (Fin 1) (Fin 1)" "Fin 1"]
    PhysicsBody_update_step [of "(PhysicsBody_new Vector3_ZERO (Fin 1) (Fin 1))\<lparr>isActive := False\<rparr>" "Fin 1"]
  by (simp add: PhysicsBody_new_def Vector3_ZERO_def Vector3_plus_def Vector3_times_def
        Vector3_divide_def Let_def)

section \<open>Finite values\<close>

lemma is_finiteE:
  assumes "is_finite u"
  obtains a where "u = Fin a"
  using assms by (cases u) auto

lemma finite_vecE:
  assumes "finite_vec v"
  obtains a b c where "v = \<lparr>x = Fin a, y = Fin b, z = Fin c\<rparr>"
proof -
  from assms obtain a b c where "x v = Fin a" "y v = Fin b" "z v = Fin c"
    unfolding finite_vec_def by (cases "x v"; cases "y v"; cases "z v") auto
  then have "v = \<lparr>x = Fin a, y = Fin b, z = Fin c\<rparr>" by (cases v) simp
  then show ?thesis by (rule that)
qed

lemma is_finite_plus: "is_finite u \<Longrightarrow> is_finite v \<Longrightarrow> is_finite (u + v)"
  by (cases u; cases v) auto

lemma is_finite_uminus: "is_finite u \<Longrightarrow> is_finite (- u)"
  by (cases u) auto

lemma is_finite_minus: "is_finite u \<Longrightarrow> is_finite v \<Longrightarrow> is_finite (u - v)"
  by (simp add: minus_f32_def is_finite_plus is_finite_uminus)

lemma is_finite_times: "is_finite u \<Longrightarrow> is_finite v \<Longrightarrow> is_finite (u * v)"
  by (cases u; cases v) auto

lemma is_finite_divide: "is_finite u \<Longrightarrow> is_finite v \<Longrightarrow> v \<noteq> Fin 0 \<Longrightarrow> is_finite (u / v)"
  by (cases u; cases v) auto

lemma is_finite_std_min: "is_finite u \<Longrightarrow> is_finite v \<Longrightarrow> is_finite (std_min u v)"
  by (simp add: std_min_def)

lemma is_finite_std_max: "is_finite u \<Longrightarrow> is_finite v \<Longrightarrow> is_finite (std_max u v)"
  by (simp add: std_max_def)

lemma is_finite_magnitude: "finite_vec v \<Longrightarrow> is_finite (magnitude v)"
  by (erule finite_vecE) (simp add: magnitude_def not_less)

lemma finite_vec_minus: "finite_vec u \<Longrightarrow> finite_vec v \<Longrightarrow> finite_vec (Vector3_minus u v)"
  by (simp add: finite_vec_def Vector3_minus_def is_finite_minus)

lemma finite_vec_plus: "finite_vec u \<Longrightarrow> finite_vec v \<Longrightarrow> finite_vec (Vector3_plus u v)"
  by (simp add: finite_vec_def Vector3_plus_def is_finite_plus)

lemma zero_divide_f32: "is_finite v \<Longrightarrow> v \<noteq> Fin 0 \<Longrightarrow> Fin 0 / v = Fin 0"
  by (cases v) auto

lemma times_zero_f32: "is_finite u \<Longrightarrow> u * Fin 0 = Fin 0"
  by (cases u) auto

lemma Vector3_times_zero:
  "is_finite k \<Longrightarrow>
     Vector3_times \<lparr>x = Fin 0, y = Fin 0, z = Fin 0\<rparr> k = \<lparr>x = Fin 0, y = Fin 0, z = Fin 0\<rparr>"
  by (erule is_finiteE) (simp add: Vector3_times_def)

lemma Vector3_divide_zero:
  "is_finite k \<Longrightarrow> k \<noteq> Fin 0 \<Longrightarrow>
     Vector3_divide \<lparr>x = Fin 0, y = Fin 0, z = Fin 0\<rparr> k = \<lparr>x = Fin 0, y = Fin 0, z = Fin 0\<rparr>"
  by (erule is_finiteE) (simp add: Vector3_divide_def)

lemma Vector3_plus_zero:
  "finite_vec v \<Longrightarrow> Vector3_plus v \<lparr>x = Fin 0, y = Fin 0, z = Fin 0\<rparr> = v"
  by (erule finite_vecE) (simp add: Vector3_plus_def)

lemma Vector3_minus_zero:
  "finite_vec v \<Longrightarrow> Vector3_minus v \<lparr>x = Fin 0, y = Fin 0, z = Fin 0\<rparr> = v"
  by (erule finite_vecE) (simp add: Vector3_minus_def minus_f32_def)

lemma dot_zero: "finite_vec v \<Longrightarrow> dot v \<lparr>x = Fin 0, y = Fin 0, z = Fin 0\<rparr> = Fin 0"
  by (erule finite_vecE) (simp add: dot_def)

lemma is_finite_getInverseMass:
  "is_finite (mass b) \<Longrightarrow> Fin 0 < mass b \<Longrightarrow> is_finite (getInverseMass b)"
  by (erule is_finiteE) (simp add: getInverseMass_def)

lemma getInverseMass_sum:
  assumes "is_finite (mass a)" "Fin 0 < mass a" "is_finite (mass b)" "Fin 0 < mass b"
    and "\<not> isStatic a \<or> \<not> isStatic b"
  shows "getInverseMass a + getInverseMass b \<noteq> Fin 0"
proof -
  from assms(1) obtain ma where ma: "mass a = Fin ma" by (rule is_finiteE)
  from assms(3) obtain mb where mb: "mass b = Fin mb" by (rule is_finiteE)
  have "0 < ma" "0 < mb" using assms(2,4) by (simp_all add: ma mb)
  then have "0 < 1 / ma" "0 < 1 / mb" "0 < 1 / ma + 1 / mb"
    by (simp_all add: add_pos_pos)
  then show ?thesis
    using assms(5) \<open>0 < ma\<close> \<open>0 < mb\<close> by (auto simp: getInverseMass_def ma mb)
qed

section \<open>Collision resolution\<close>

lemma normalized_coincident:
  assumes "finite_vec p"
  shows "normalized (Vector3_minus p p) = \<lparr>x = Fin 0, y = Fin 0, z = Fin 0\<rparr>"
proof -
  from assms obtain a b c where p: "p = \<lparr>x = Fin a, y = Fin b, z = Fin c\<rparr>"
    by (rule finite_vecE)
  show ?thesis
    by (simp add: p normalized_def Vector3_minus_def magnitude_def minus_f32_def Let_def)
qed

lemma applyImpulse_zero:
  assumes "finite_vec (velocity b)" "is_finite (mass b)" "Fin 0 < mass b"
  shows "applyImpulse b \<lparr>x = Fin 0, y = Fin 0, z = Fin 0\<rparr> = b"
proof -
  have "mass b \<noteq> Fin 0" using assms(3) by auto
  then show ?thesis
    using assms(1,2) by (simp add: applyImpulse_def Vector3_divide_zero Vector3_plus_zero)
qed

text \<open>
  With the zero vector as normal, the impulse and the positional correction are zero:
  only the perturbation of a pair of balls remains.
\<close>

lemma resolveCollision_zero_normal:
  assumes n: "normalized (Vector3_minus (position a) (position b))
                = \<lparr>x = Fin 0, y = Fin 0, z = Fin 0\<rparr>"
    and pa: "finite_vec (position a)" and pb: "finite_vec (position b)"
    and va: "finite_vec (velocity a)" and vb: "finite_vec (velocity b)"
    and ra: "is_finite (restitution a)" and rb: "is_finite (restitution b)"
    and rda: "is_finite (radius a)" and rdb: "is_finite (radius b)"
    and ma: "is_finite (mass a)" "Fin 0 < mass a"
    and mb: "is_finite (mass b)" "Fin 0 < mass b"
    and dyn: "\<not> isStatic a \<or> \<not> isStatic b"
  shows "resolveCollision a b rs =
     (if ball a \<noteq> None \<and> ball b \<noteq> None
      then (a\<lparr>velocity := Vector3_plus (velocity a)
                 \<lparr>x = (Fin (real (rs 0)) / Fin (real RAND_MAX) - Fin 0.5) * Fin 0.1,
                  y = (Fin (real (rs (Suc 0))) / Fin (real RAND_MAX) - Fin 0.5) * Fin 0.1,
                  z = (Fin (real (rs (Suc (Suc 0)))) / Fin (real RAND_MAX) - Fin 0.5) * Fin 0.1\<rparr>\<rparr>,
            b\<lparr>velocity := Vector3_minus (velocity b)
                 \<lparr>x = (Fin (real (rs 0)) / Fin (real RAND_MAX) - Fin 0.5) * Fin 0.1,
                  y = (Fin (real (rs (Suc 0))) / Fin (real RAND_MAX) - Fin 0.5) * Fin 0.1,
                  z = (Fin (real (rs (Suc (Suc 0)))) / Fin (real RAND_MAX) - Fin 0.5) * Fin 0.1\<rparr>\<rparr>,
            \<lambda>n. rs (Suc (Suc (Suc n))))
      else (a, b, rs))"
proof -
  note fin = is_finite_plus is_finite_minus is_finite_uminus is_finite_times is_finite_divide
    is_finite_std_min is_finite_std_max is_finite_magnitude finite_vec_minus
    is_finite_getInverseMass
  have s: "getInverseMass a + getInverseMass b \<noteq> Fin 0"
    using ma mb dyn by (rule getInverseMass_sum)
  have dot0: "dot (Vector3_minus (velocity a) (velocity b)) \<lparr>x = Fin 0, y = Fin 0, z = Fin 0\<rparr> = Fin 0"
    using va vb by (simp add: dot_zero finite_vec_minus)
  have sc0: "(- (Fin 1 + std_min (restitution a) (restitution b))) * Fin 0
               / (getInverseMass a + getInverseMass b) = Fin 0"
    using ra rb ma mb s by (simp add: times_zero_f32 zero_divide_f32 fin)
  have ia: "applyImpulse a \<lparr>x = Fin 0, y = Fin 0, z = Fin 0\<rparr> = a"
    using va ma by (rule applyImpulse_zero)
  have ib: "applyImpulse b \<lparr>x = Fin 0, y = Fin 0, z = Fin 0\<rparr> = b"
    using vb mb by (rule applyImpulse_zero)
  have corr: "is_finite (Fin 0.8
        * std_max (radius a + radius b - magnitude (Vector3_minus (position a) (position b))
                   - Fin 0.01) (Fin 0)
        / (getInverseMass a + getInverseMass b))"
    using pa pb rda rdb ma mb s by (simp add: fin)
  show ?thesis
    unfolding resolveCollision_def n
    using pa pb ma mb corr
    by (simp add: Let_def dot0 sc0 ia ib Vector3_times_zero Vector3_plus_zero
          Vector3_minus_zero is_finite_getInverseMass is_finite_uminus rand_def
        del: divide_f32.simps)
qed

lemma in_range_finite: "in_range lo hi v \<Longrightarrow> is_finite v"
  by (cases v) (simp_all add: in_range_def)

lemma in_range_positive: "0 < lo \<Longrightarrow> in_range lo hi v \<Longrightarrow> Fin 0 < v"
  by (cases v) (simp_all add: in_range_def)

lemma vec_in_range_finite: "vec_in_range lo hi u \<Longrightarrow> finite_vec u"
  by (auto simp: vec_in_range_def finite_vec_def intro: in_range_finite)

text \<open>
  C7, as the claim states it, fails: the constructor accepts a mass of 0. The bodies
  \<open>massless_A\<close> and \<open>unit_B\<close> have the same centre and are colliding, and neither is
  static. \<^verbatim>\<open>normalized\<close> returns the zero vector, but the inverse mass of the first body
  is 1 / 0, an infinity: the zero impulse times this inverse mass is NaN, and so is the
  zero correction times it. The velocity and the position of the first body become
  NaN.
\<close>

theorem resolveCollision_massless_coincident:
  "position massless_A = position unit_B
   \<and> \<not> isStatic massless_A \<and> \<not> isStatic unit_B
   \<and> isCollidingWith massless_A unit_B
   \<and> normalized (Vector3_minus (position massless_A) (position unit_B))
       = \<lparr>x = Fin 0, y = Fin 0, z = Fin 0\<rparr>
   \<and> getInverseMass massless_A = PInf
   \<and> velocity (fst (resolveCollision massless_A unit_B rand_zero))
       = \<lparr>x = NaN, y = NaN, z = NaN\<rparr>
   \<and> position (fst (resolveCollision massless_A unit_B rand_zero))
       = \<lparr>x = NaN, y = NaN, z = NaN\<rparr>"
  by (simp add: massless_A_def unit_B_def isCollidingWith_def getInverseMass_def
        resolveCollision_def PhysicsBody_new_def normalized_def magnitude_def dot_def
        applyImpulse_def Vector3_minus_def Vector3_plus_def Vector3_times_def
        Vector3_divide_def minus_f32_def std_min_def std_max_def Let_def)

text \<open>
  C7, amended. When the centres of the two bodies coincide at a finite position,
  \<^verbatim>\<open>normalized\<close> returns the zero vector instead of dividing by the zero distance.
  When moreover at least one body is not static, both masses lie between 1e-9 and 1e9,
  both radii between 0 and 1e9, both restitutions between 0 and 1 and all components
  of both velocities between -1e18 and 1e18, \<^verbatim>\<open>resolveCollision\<close> returns both bodies
  with finite velocities and positions, the positions unchanged. The bounds keep every
  intermediate value of the source within the range of a \<^verbatim>\<open>float\<close>: the difference of the
  velocities, the inverse masses and their sum, and the quotient of the penetration by
  that sum.
\<close>

theorem resolveCollision_coincident_centres:
  assumes "position a = position b"
    and "finite_vec (position a)"
    and "vec_in_range (- (10 ^ 18)) (10 ^ 18) (velocity a)"
    and "vec_in_range (- (10 ^ 18)) (10 ^ 18) (velocity b)"
    and "in_range 0 1 (restitution a)" and "in_range 0 1 (restitution b)"
    and "in_range 0 (10 ^ 9) (radius a)" and "in_range 0 (10 ^ 9) (radius b)"
    and "in_range (1 / 10 ^ 9) (10 ^ 9) (mass a)"
    and "in_range (1 / 10 ^ 9) (10 ^ 9) (mass b)"
    and "\<not> isStatic a \<or> \<not> isStatic b"
  shows "normalized (Vector3_minus (position a) (position b))
           = \<lparr>x = Fin 0, y = Fin 0, z = Fin 0\<rparr>
       \<and> (case resolveCollision a b rs of
            (a', b', rs') \<Rightarrow>
              finite_vec (velocity a') \<and> finite_vec (position a') \<and>
              finite_vec (velocity b') \<and> finite_vec (position b') \<and>
              position a' = position a \<and> position b' = position b)"
proof -
  have va: "finite_vec (velocity a)" and vb: "finite_vec (velocity b)"
    using assms(3,4) by (simp_all add: vec_in_range_finite)
  have fin: "is_finite (restitution a)" "is_finite (restitution b)"
    "is_finite (radius a)" "is_finite (radius b)"
    using assms(5-8) by (simp_all add: in_range_finite)
  have ma: "is_finite (mass a)" "Fin 0 < mass a"
    using assms(9) in_range_positive [of "1 / 10 ^ 9" "10 ^ 9" "mass a"]
    by (simp_all add: in_range_finite)
  have mb: "is_finite (mass b)" "Fin 0 < mass b"
    using assms(10) in_range_positive [of "1 / 10 ^ 9" "10 ^ 9" "mass b"]
    by (simp_all add: in_range_finite)
  have n: "normalized (Vector3_minus (position a) (position b))
             = \<lparr>x = Fin 0, y = Fin 0, z = Fin 0\<rparr>"
    using assms(1,2) normalized_coincident [of "position b"] by simp
  have pb: "finite_vec (position b)" using assms(1,2) by simp
  have off: "finite_vec
       \<lparr>x = (Fin (real (rs 0)) / Fin (real RAND_MAX) - Fin 0.5) * Fin 0.1,
        y = (Fin (real (rs (Suc 0))) / Fin (real RAND_MAX) - Fin 0.5) * Fin 0.1,
        z = (Fin (real (rs (Suc (Suc 0)))) / Fin (real RAND_MAX) - Fin 0.5) * Fin 0.1\<rparr>"
    by (simp add: finite_vec_def RAND_MAX_def minus_f32_def)
  have r: "resolveCollision a b rs =
     (if ball a \<noteq> None \<and> ball b \<noteq> None
      then (a\<lparr>velocity := Vector3_plus (velocity a)
                 \<lparr>x = (Fin (real (rs 0)) / Fin (real RAND_MAX) - Fin 0.5) * Fin 0.1,
                  y = (Fin (real (rs (Suc 0))) / Fin (real RAND_MAX) - Fin 0.5) * Fin 0.1,
                  z = (Fin (real (rs (Suc (Suc 0)))) / Fin (real RAND_MAX) - Fin 0.5) * Fin 0.1\<rparr>\<rparr>,
            b\<lparr>velocity := Vector3_minus (velocity b)
                 \<lparr>x = (Fin (real (rs 0)) / Fin (real RAND_MAX) - Fin 0.5) * Fin 0.1,
                  y = (Fin (real (rs (Suc 0))) / Fin (real RAND_MAX) - Fin 0.5) * Fin 0.1,
                  z = (Fin (real (rs (Suc (Suc 0)))) / Fin (real RAND_MAX) - Fin 0.5) * Fin 0.1\<rparr>\<rparr>,
            \<lambda>n. rs (Suc (Suc (Suc n))))
      else (a, b, rs))"
    using n assms(2) pb va vb fin ma mb assms(11) by (rule resolveCollision_zero_normal)
  show ?thesis
    using n assms(2) va vb pb off
    by (simp add: r finite_vec_plus finite_vec_minus)
qed

theorem resolveCollision_coincident_centres_witness:
  "position (PhysicsBody_new \<lparr>x = Fin 1, y = Fin 2, z = Fin 3\<rparr> (Fin 1) (Fin 1))
     = position (PhysicsBody_new \<lparr>x = Fin 1, y = Fin 2, z = Fin 3\<rparr> (Fin 2) (Fin 1))
   \<and> finite_vec (velocity (fst (resolveCollision
         (PhysicsBody_new \<lparr>x = Fin 1, y = Fin 2, z = Fin 3\<rparr> (Fin 1) (Fin 1))
         (PhysicsBody_new \<lparr>x = Fin 1, y = Fin 2, z = Fin 3\<rparr> (Fin 2) (Fin 1)) rand_zero)))
   \<and> position (fst (resolveCollision
         (PhysicsBody_new \<lparr>x = Fin 1, y = Fin 2, z = Fin 3\<rparr> (Fin 1) (Fin 1))
         (PhysicsBody_new \<lparr>x = Fin 1, y = Fin 2, z = Fin 3\<rparr> (Fin 2) (Fin 1)) rand_zero))
     = \<lparr>x = Fin 1, y = Fin 2, z = Fin 3\<rparr>"
proof -
  let ?a = "PhysicsBody_new \<lparr>x = Fin 1, y = Fin 2, z = Fin 3\<rparr> (Fin 1) (Fin 1)"
  let ?b = "PhysicsBody_new \<lparr>x = Fin 1, y = Fin 2, z = Fin 3\<rparr> (Fin 2) (Fin 1)"
  have h: "position ?a = position ?b" "finite_vec (position ?a)"
    "vec_in_range (- (10 ^ 18)) (10 ^ 18) (velocity ?a)"
    "vec_in_range (- (10 ^ 18)) (10 ^ 18) (velocity ?b)"
    "in_range 0 1 (restitution ?a)" "in_range 0 1 (restitution ?b)"
    "in_range 0 (10 ^ 9) (radius ?a)" "in_range 0 (10 ^ 9) (radius ?b)"
    "in_range (1 / 10 ^ 9) (10 ^ 9) (mass ?a)" "in_range (1 / 10 ^ 9) (10 ^ 9) (mass ?b)"
    "\<not> isStatic ?a \<or> \<not> isStatic ?b"
    by (simp_all add: PhysicsBody_new_def finite_vec_def vec_in_range_def in_range_def)
  from resolveCollision_coincident_centres [OF h, of rand_zero] show ?thesis
    by (simp add: case_prod_beta) (simp add: PhysicsBody_new_def)
qed

text \<open>
  C1. The static bodies \<open>static_A\<close> and \<open>static_B\<close> overlap: \<^verbatim>\<open>isCollidingWith\<close> holds
  and the combined inverse mass is zero. \<^verbatim>\<open>resolveCollision\<close> does not skip the pair:
  the impulse scalar is 0 / 0 and the correction divides by zero, and although
  \<^verbatim>\<open>applyImpulse\<close> leaves the velocities of static bodies alone, the correction is
  added to both positions, which become NaN in every component.
\<close>

theorem resolveCollision_static_pair:
  "isCollidingWith static_A static_B
   \<and> getInverseMass static_A + getInverseMass static_B = Fin 0
   \<and> resolveCollision static_A static_B rs
     = (static_A\<lparr>position := \<lparr>x = NaN, y = NaN, z = NaN\<rparr>\<rparr>,
        static_B\<lparr>position := \<lparr>x = NaN, y = NaN, z = NaN\<rparr>\<rparr>,
        rs)"
  by (simp add: static_A_def static_B_def setStatic_def Vector3_ZERO_def isCollidingWith_def getInverseMass_def
        resolveCollision_def PhysicsBody_new_def normalized_def magnitude_def dot_def
        applyImpulse_def Vector3_minus_def Vector3_plus_def Vector3_times_def
        Vector3_divide_def minus_f32_def std_min_def std_max_def Let_def)

theorem resolveCollision_static_pair_witness:
  "is_nan (x (position (fst (resolveCollision static_A static_B rand_zero))))
   \<and> is_nan (x (position (fst (snd (resolveCollision static_A static_B rand_zero)))))"
  using resolveCollision_static_pair [of rand_zero]
  by simp

text \<open>
  C2. The bodies \<open>moving_A\<close> and \<open>resting_B\<close> overlap and are not separating. The normal
  is (-1, 0, 0) and the impulse scalar is 0.425: the impulse scaled by the inverse
  masses would change the velocities by (-0.85, 0, 0) and (0.85, 0, 0), to
  (0.15, 0, 0) and (0.85, 0, 0). \<^verbatim>\<open>resolveCollision\<close> passes the scaled vectors to
  \<^verbatim>\<open>applyImpulse\<close>, which divides by the mass once more: the velocities become
  (-0.7, 0, 0) and (1.7, 0, 0).
\<close>

theorem resolveCollision_impulse_scaled_twice:
  "isCollidingWith moving_A resting_B
   \<and> \<not> dot (Vector3_minus (velocity moving_A) (velocity resting_B))
           (normalized (Vector3_minus (position moving_A) (position resting_B))) > Fin 0
   \<and> normalized (Vector3_minus (position moving_A) (position resting_B))
       = \<lparr>x = Fin (- 1), y = Fin 0, z = Fin 0\<rparr>
   \<and> (- (Fin 1 + std_min (restitution moving_A) (restitution resting_B)))
        * dot (Vector3_minus (velocity moving_A) (velocity resting_B))
            (normalized (Vector3_minus (position moving_A) (position resting_B)))
        / (getInverseMass moving_A + getInverseMass resting_B)
       = Fin 0.425
   \<and> Vector3_plus (velocity moving_A)
        (Vector3_times (Vector3_times \<lparr>x = Fin (- 1), y = Fin 0, z = Fin 0\<rparr> (Fin 0.425))
           (getInverseMass moving_A))
       = \<lparr>x = Fin 0.15, y = Fin 0, z = Fin 0\<rparr>
   \<and> Vector3_plus (velocity resting_B)
        (Vector3_times (Vector3_times \<lparr>x = Fin (- 1), y = Fin 0, z = Fin 0\<rparr> (Fin 0.425))
           (- getInverseMass resting_B))
       = \<lparr>x = Fin 0.85, y = Fin 0, z = Fin 0\<rparr>
   \<and> velocity (fst (resolveCollision moving_A resting_B rs))
       = \<lparr>x = Fin (- 0.7), y = Fin 0, z = Fin 0\<rparr>
   \<and> velocity (fst (snd (resolveCollision moving_A resting_B rs)))
       = \<lparr>x = Fin 1.7, y = Fin 0, z = Fin 0\<rparr>"
  by (simp add: moving_A_def resting_B_def isCollidingWith_def getInverseMass_def
        resolveCollision_def PhysicsBody_new_def normalized_def magnitude_def dot_def
        applyImpulse_def Vector3_minus_def Vector3_plus_def Vector3_times_def
        Vector3_divide_def minus_f32_def std_min_def std_max_def Let_def)

theorem resolveCollision_impulse_scaled_twice_witness:
  "x (velocity (fst (resolveCollision moving_A resting_B rand_zero))) = Fin (- 0.7)
   \<and> x (velocity (fst (snd (resolveCollision moving_A resting_B rand_zero)))) = Fin 1.7"
  using resolveCollision_impulse_scaled_twice [of rand_zero]
  by simp

section \<open>Construction\<close>

text \<open>
  C9, as the claim states it, fails: \<^verbatim>\<open>PhysicsBody(pos, -1, 0)\<close> is constructed without
  an error and \<^verbatim>\<open>addBody\<close> puts it into the world, with its mass of -1 and its radius
  of 0.
\<close>

theorem construction_accepts_nonpositive:
  "bodies (addBody (PhysicsWorld_new rand_zero) (PhysicsBody_new Vector3_ZERO (- Fin 1) (Fin 0)))
     = [PhysicsBody_new Vector3_ZERO (- Fin 1) (Fin 0)]
   \<and> mass (PhysicsBody_new Vector3_ZERO (- Fin 1) (Fin 0)) = Fin (- 1)
   \<and> mass (PhysicsBody_new Vector3_ZERO (- Fin 1) (Fin 0)) \<le> Fin 0
   \<and> radius (PhysicsBody_new Vector3_ZERO (- Fin 1) (Fin 0)) \<le> Fin 0"
  by (simp add: addBody_def PhysicsWorld_new_def PhysicsBody_new_def)

text \<open>
  C9, amended. The constructor \<^verbatim>\<open>PhysicsBody(pos, m, r)\<close> stores any mass and radius as
  given, and \<^verbatim>\<open>addBody\<close> appends any body to the world. \<^verbatim>\<open>createBall\<close> appends a ball
  of mass 0.5 and radius 0.25, both positive, whatever the position.
\<close>

theorem construction_stores_mass_and_radius:
  "mass (PhysicsBody_new pos m r) = m
   \<and> radius (PhysicsBody_new pos m r) = r
   \<and> bodies (addBody w b) = bodies w @ [b]
   \<and> (\<exists>b'. bodies (fst (createBall w pos col n)) = bodies w @ [b']
          \<and> mass b' = Fin 0.5 \<and> radius b' = Fin 0.25
          \<and> Fin 0 < mass b' \<and> Fin 0 < radius b')"
  by (simp add: PhysicsBody_new_def addBody_def createBall_def Ball_new_def Let_def)

theorem construction_stores_mass_and_radius_witness:
  "mass (PhysicsBody_new Vector3_ZERO (Fin 0) (- Fin 2)) = Fin 0
   \<and> radius (PhysicsBody_new Vector3_ZERO (Fin 0) (- Fin 2)) = Fin (- 2)"
  using construction_stores_mass_and_radius
    [of Vector3_ZERO "Fin 0" "- Fin 2" "PhysicsWorld_new rand_zero"
        "PhysicsBody_new Vector3_ZERO (Fin 0) (- Fin 2)" Vector3_ZERO 0]
  by simp

section \<open>Boundary resolution\<close>

lemma check_x_position:
  "position (fst (check_x wb st)) =
     (position (fst st))\<lparr>x := clamp_axis (wb ! 0) (wb ! 1) (radius (fst st)) (x (position (fst st)))\<rparr>"
  by (cases st) (simp add: check_x_def clamp_axis_def Let_def)

lemma check_x_kept [simp]:
  "radius (fst (check_x wb st)) = radius (fst st)"
  "isStatic (fst (check_x wb st)) = isStatic (fst st)"
  "isActive (fst (check_x wb st)) = isActive (fst st)"
  by (cases st; simp add: check_x_def Let_def)+

lemma check_x_inside:
  "\<not> x (position b) - radius b < wb ! 0 \<Longrightarrow> \<not> x (position b) + radius b > wb ! 1 \<Longrightarrow>
     check_x wb (b, c) = (b, c)"
  by (simp add: check_x_def)

lemma check_y_position:
  "position (fst (check_y wb st)) =
     (position (fst st))\<lparr>y := clamp_axis (wb ! 2) (wb ! 3) (radius (fst st)) (y (position (fst st)))\<rparr>"
  by (cases st) (simp add: check_y_def clamp_axis_def Let_def)

lemma check_y_kept [simp]:
  "radius (fst (check_y wb st)) = radius (fst st)"
  "isStatic (fst (check_y wb st)) = isStatic (fst st)"
  "isActive (fst (check_y wb st)) = isActive (fst st)"
  by (cases st; simp add: check_y_def Let_def)+

lemma check_y_inside:
  "\<not> y (position b) - radius b < wb ! 2 \<Longrightarrow> \<not> y (position b) + radius b > wb ! 3 \<Longrightarrow>
     check_y wb (b, c) = (b, c)"
  by (simp add: check_y_def)

lemma check_z_position:
  "position (fst (check_z wb st)) =
     (position (fst st))\<lparr>z := clamp_axis (wb ! 4) (wb ! 5) (radius (fst st)) (z (position (fst st)))\<rparr>"
  by (cases st) (simp add: check_z_def clamp_axis_def Let_def)

lemma check_z_kept [simp]:
  "radius (fst (check_z wb st)) = radius (fst st)"
  "isStatic (fst (check_z wb st)) = isStatic (fst st)"
  "isActive (fst (check_z wb st)) = isActive (fst st)"
  by (cases st; simp add: check_z_def Let_def)+

lemma check_z_inside:
  "\<not> z (position b) - radius b < wb ! 4 \<Longrightarrow> \<not> z (position b) + radius b > wb ! 5 \<Longrightarrow>
     check_z wb (b, c) = (b, c)"
  by (simp add: check_z_def)

lemma boundary_body_blocks:
  "boundary_body wb b =
     (if isStatic b then b
      else
        let st = check_z wb (check_y wb (check_x wb (b, False)));
            body = fst st
        in if y (position body) \<le> wb ! 2 + radius body + Fin 0.1 \<and> snd st
           then body\<lparr>velocity :=
                  (velocity body)\<lparr>x := x (velocity body) * (Fin 1 - friction body),
                                  z := z (velocity body) * (Fin 1 - friction body)\<rparr>\<rparr>
           else body)"
  by (simp add: boundary_body_def Let_def case_prod_beta)

text \<open>
  The position that \<open>boundary_body\<close> leaves: every coordinate is clamped on its own
  axis; the radius and the flags are kept.
\<close>

lemma boundary_body_position:
  "\<not> isStatic b \<Longrightarrow>
     position (boundary_body wb b) =
       \<lparr>x = clamp_axis (wb ! 0) (wb ! 1) (radius b) (x (position b)),
        y = clamp_axis (wb ! 2) (wb ! 3) (radius b) (y (position b)),
        z = clamp_axis (wb ! 4) (wb ! 5) (radius b) (z (position b))\<rparr>"
  by (simp add: boundary_body_blocks Let_def check_x_position check_y_position
        check_z_position)

lemma boundary_body_radius [simp]: "radius (boundary_body wb b) = radius b"
  by (simp add: boundary_body_blocks Let_def)

lemma boundary_body_isStatic [simp]: "isStatic (boundary_body wb b) = isStatic b"
  by (simp add: boundary_body_blocks Let_def)

lemma boundary_body_isActive [simp]: "isActive (boundary_body wb b) = isActive b"
  by (simp add: boundary_body_blocks Let_def)

text \<open>Whatever the coordinate was, the value that a block assigns is settled.\<close>

lemma axis_settled_clamp: "axis_settled lo hi r (clamp_axis lo hi r p)"
  by (simp add: axis_settled_def clamp_axis_def)

lemma boundary_body_static: "isStatic b \<Longrightarrow> boundary_body wb b = b"
  by (simp add: boundary_body_def)

text \<open>A body for which none of the six tests holds is left as it is.\<close>

lemma boundary_body_clear:
  assumes "clear_of_walls wb b"
  shows "boundary_body wb b = b"
proof -
  have px: "\<not> x (position b) - radius b < wb ! 0" "\<not> x (position b) + radius b > wb ! 1"
    and py: "\<not> y (position b) - radius b < wb ! 2" "\<not> y (position b) + radius b > wb ! 3"
    and pz: "\<not> z (position b) - radius b < wb ! 4" "\<not> z (position b) + radius b > wb ! 5"
    using assms by (simp_all add: clear_of_walls_def)
  show ?thesis
    by (simp add: boundary_body_blocks check_x_inside [OF px] check_y_inside [OF py]
          check_z_inside [OF pz])
qed

lemma handleCollisions_worldBounds [simp]: "worldBounds (handleCollisions w) = worldBounds w"
  by (simp add: handleCollisions_def split: prod.splits)

lemma substep_worldBounds [simp]: "worldBounds (substep cs w) = worldBounds w"
  by (simp add: substep_def handleWorldBoundaries_def Let_def)

lemma fold_substep_worldBounds [simp]: "worldBounds (fold substep cs w) = worldBounds w"
  by (induction cs arbitrary: w) simp_all

lemma update_worldBounds [simp]: "worldBounds (update w dt) = worldBounds w"
  by (simp add: update_def update_loop_fold)

text \<open>Every substep ends with the boundary resolution of all bodies.\<close>

lemma substep_bodies:
  "\<exists>bs. bodies (substep cs w) = map (boundary_body (worldBounds w)) bs"
  by (simp add: substep_def handleWorldBoundaries_def Let_def) blast

text \<open>With time to simulate and substeps allowed, \<^verbatim>\<open>update\<close> ends with a substep.\<close>

lemma update_ends_with_substep:
  assumes "Fin 0 < dt" and "0 < maxSubsteps w"
  shows "\<exists>cs w'. update w dt = substep cs w' \<and> worldBounds w' = worldBounds w"
proof -
  let ?xs = "step_sizes (timeStep w) (maxSubsteps w) dt 0"
  have "?xs \<noteq> []"
    using assms by (subst step_sizes.simps) (simp add: Let_def)
  then have "?xs = butlast ?xs @ [last ?xs]" by simp
  then have "fold substep ?xs w = substep (last ?xs) (fold substep (butlast ?xs) w)"
    by (metis fold_append fold_simps(1,2) comp_apply)
  then show ?thesis
    by (metis update_def update_loop_fold fold_substep_worldBounds)
qed

text \<open>
  A world with a single body has no pair to collide, and in the default world an
  \<^verbatim>\<open>update\<close> of at most one time step is a single substep.
\<close>

lemma single_body_world_fields [simp]:
  "timeStep (single_body_world b) = Fin (1 / 60)"
  "maxSubsteps (single_body_world b) = 4"
  "bodies (single_body_world b) = [b]"
  "rand_state (single_body_world b) = rand_zero"
  "worldBounds (single_body_world b) = [Fin (- 15), Fin 15, Fin 0, Fin 10, Fin (- 15), Fin 15]"
  by (simp_all add: single_body_world_def addBody_def PhysicsWorld_new_def)

lemma update_single_body_world:
  assumes "0 < d" and "d \<le> 1 / 60"
  shows "update (single_body_world b) (Fin d) =
           (single_body_world b)
             \<lparr>bodies := [boundary_body (worldBounds (single_body_world b))
                           (body_update b (Fin d))]\<rparr>"
proof -
  let ?w = "single_body_world b"
  have cs: "std_min (Fin d) (Fin (1 / 60)) = Fin d"
    using assms by (simp add: std_min_def)
  have sub: "substep (Fin d) ?w =
      ?w\<lparr>bodies := [boundary_body (worldBounds ?w) (body_update b (Fin d))]\<rparr>"
    by (simp add: substep_def handleCollisions_def handleWorldBoundaries_def collide_all_def
          Let_def)
  have "update ?w (Fin d) = update_loop (substep (Fin d) ?w) (Fin 0) 1"
    using assms(1) by (simp add: update_def update_loop.simps [of ?w] cs Let_def minus_f32_def)
  also have "\<dots> = substep (Fin d) ?w"
    by (simp add: update_loop.simps [of _ "Fin 0"])
  finally show ?thesis by (simp only: sub)
qed

text \<open>
  C6, as the claim states it, fails: \<^verbatim>\<open>handleWorldBoundaries\<close> skips static bodies, so
  the static body \<open>static_far\<close> at (100, 5, 0) is still there after \<^verbatim>\<open>update(1/60)\<close>,
  outside the default room, whose largest x for a body of radius 1 is 14.
\<close>

theorem update_static_outside:
  "bodies (update (single_body_world static_far) (Fin (1 / 60))) = [static_far]
   \<and> x (position static_far) = Fin 100
   \<and> worldBounds (single_body_world static_far) ! 1 - radius static_far = Fin 14
   \<and> \<not> within_bounds (worldBounds (single_body_world static_far)) static_far"
proof -
  have "bodies (update (single_body_world static_far) (Fin (1 / 60))) = [static_far]"
    by (simp add: update_single_body_world)
       (simp add: static_far_def setStatic_def Vector3_ZERO_def body_update_def PhysicsBody_update_def boundary_body_def
          PhysicsBody_new_def)
  then show ?thesis
    by (simp add: within_bounds_def static_far_def setStatic_def Vector3_ZERO_def PhysicsBody_new_def minus_f32_def)
qed

text \<open>
  C6, amended. After an \<^verbatim>\<open>update(dt)\<close> that runs at least one substep (\<open>dt > 0\<close> and
  \<^verbatim>\<open>maxSubsteps\<close> at least 1), every body that is not static is settled on each of the
  three axes: its coordinate is the value \<open>min + radius\<close> or \<open>max - radius\<close> that
  \<^verbatim>\<open>handleWorldBoundaries\<close> has assigned, or neither test of the axis holds for it
  (\<open>position - radius < min\<close>, \<open>position + radius > max\<close>, as the code computes
  them). \<^verbatim>\<open>handleWorldBoundaries\<close> returns every static body as it is, so that static
  bodies are not brought into the room.
\<close>

theorem update_containment:
  assumes "Fin 0 < dt" and "1 \<le> maxSubsteps w"
    and "b \<in> set (bodies (update w dt))" and "\<not> isStatic b"
  shows "axis_settled (worldBounds w ! 0) (worldBounds w ! 1) (radius b) (x (position b))
       \<and> axis_settled (worldBounds w ! 2) (worldBounds w ! 3) (radius b) (y (position b))
       \<and> axis_settled (worldBounds w ! 4) (worldBounds w ! 5) (radius b) (z (position b))
       \<and> (k < length (bodies v) \<and> isStatic (bodies v ! k)
            \<longrightarrow> bodies (handleWorldBoundaries v) ! k = bodies v ! k)"
proof -
  let ?wb = "worldBounds w"
  from assms(1,2) obtain cs w' where u: "update w dt = substep cs w'"
    and wb: "worldBounds w' = ?wb"
    using update_ends_with_substep [of dt w] by auto
  from substep_bodies [of cs w'] obtain bs
    where "bodies (update w dt) = map (boundary_body ?wb) bs"
    by (auto simp: u wb)
  with assms(3) obtain b0 where b: "b = boundary_body ?wb b0" by auto
  have dyn: "\<not> isStatic b0" and r: "radius b0 = radius b"
    using assms(4) by (simp_all add: b)
  have pos: "position b =
       \<lparr>x = clamp_axis (?wb ! 0) (?wb ! 1) (radius b) (x (position b0)),
        y = clamp_axis (?wb ! 2) (?wb ! 3) (radius b) (y (position b0)),
        z = clamp_axis (?wb ! 4) (?wb ! 5) (radius b) (z (position b0))\<rparr>"
    using boundary_body_position [OF dyn, of ?wb] by (simp add: b)
  have settled:
    "axis_settled (?wb ! 0) (?wb ! 1) (radius b) (x (position b))"
    "axis_settled (?wb ! 2) (?wb ! 3) (radius b) (y (position b))"
    "axis_settled (?wb ! 4) (?wb ! 5) (radius b) (z (position b))"
    by (simp_all add: pos axis_settled_clamp)
  have static: "k < length (bodies v) \<and> isStatic (bodies v ! k)
      \<longrightarrow> bodies (handleWorldBoundaries v) ! k = bodies v ! k"
    by (simp add: handleWorldBoundaries_def boundary_body_static)
  show ?thesis
    using settled static by simp
qed

theorem update_containment_witness:
  "bodies (update (single_body_world dynamic_far) (Fin (1 / 60)))
     = [dynamic_far\<lparr>position := \<lparr>x = Fin 14, y = Fin 4.997277725, z = Fin 0\<rparr>,
                    velocity := \<lparr>x = Fin 0, y = Fin (- 0.1633365), z = Fin 0\<rparr>,
                    acceleration := \<lparr>x = Fin 0, y = Fin (- 9.81), z = Fin 0\<rparr>\<rparr>]
   \<and> axis_settled (Fin (- 15)) (Fin 15) (Fin 1) (Fin 14)
   \<and> axis_settled (Fin 0) (Fin 10) (Fin 1) (Fin 4.997277725)
   \<and> axis_settled (Fin (- 15)) (Fin 15) (Fin 1) (Fin 0)
   \<and> bodies (handleWorldBoundaries (single_body_world static_far)) ! 0 = static_far"
proof -
  let ?w = "single_body_world dynamic_far"
  let ?b = "dynamic_far\<lparr>position := \<lparr>x = Fin 14, y = Fin 4.997277725, z = Fin 0\<rparr>,
                    velocity := \<lparr>x = Fin 0, y = Fin (- 0.1633365), z = Fin 0\<rparr>,
                    acceleration := \<lparr>x = Fin 0, y = Fin (- 9.81), z = Fin 0\<rparr>\<rparr>"
  have step: "body_update dynamic_far (Fin (1 / 60))
      = dynamic_far\<lparr>position := \<lparr>x = Fin 100, y = Fin 4.997277725, z = Fin 0\<rparr>,
                    velocity := \<lparr>x = Fin 0, y = Fin (- 0.1633365), z = Fin 0\<rparr>,
                    acceleration := \<lparr>x = Fin 0, y = Fin (- 9.81), z = Fin 0\<rparr>\<rparr>"
    by (simp add: dynamic_far_def body_update_def PhysicsBody_update_def PhysicsBody_new_def
          Vector3_plus_def Vector3_times_def Vector3_divide_def Vector3_ZERO_def Let_def)
  have res: "bodies (update ?w (Fin (1 / 60))) = [?b]"
    by (simp add: update_single_body_world step)
       (simp add: boundary_body_def check_x_def check_y_def check_z_def dynamic_far_def
          PhysicsBody_new_def minus_f32_def Let_def)
  have mem: "?b \<in> set (bodies (update ?w (Fin (1 / 60))))"
    by (simp add: res)
  have h: "Fin 0 < Fin (1 / 60)" "1 \<le> maxSubsteps ?w"
    by simp_all
  have g: "\<not> isStatic ?b" "radius dynamic_far = Fin 1"
    "position ?b = \<lparr>x = Fin 14, y = Fin 4.997277725, z = Fin 0\<rparr>"
    by (simp_all add: dynamic_far_def PhysicsBody_new_def)
  have s: "0 < length (bodies (single_body_world static_far))
      \<and> isStatic (bodies (single_body_world static_far) ! 0)"
    by (simp add: static_far_def setStatic_def)
  from update_containment [OF h mem g(1), of 0 "single_body_world static_far"]
  show ?thesis
    using s by (simp add: res g)
qed

section \<open>Held and inactive bodies\<close>

lemma body_update_held: "is_held_ball b \<Longrightarrow> body_update b dt = b"
  by (auto simp: is_held_ball_def body_update_def Ball_update_def split: option.splits)

text \<open>
  A call of \<open>collide_pair\<close> changes only the two bodies of its pair, and only when they
  collide.
\<close>

lemma collide_pair_length [simp]: "length (fst (collide_pair i j st)) = length (fst st)"
  by (cases st) (simp add: collide_pair_def Let_def split: prod.splits)

lemma collide_pair_other:
  "k \<noteq> i \<Longrightarrow> k \<noteq> j \<Longrightarrow> fst (collide_pair i j st) ! k = fst st ! k"
  by (cases st) (simp add: collide_pair_def Let_def split: prod.splits)

lemma collide_pair_apart:
  "\<not> isCollidingWith (fst st ! i) (fst st ! j) \<Longrightarrow> collide_pair i j st = st"
  by (cases st) (simp add: collide_pair_def)

lemma in_pair_simps [simp]:
  "in_pair k [] = False"
  "in_pair k [(i, j)] = (k = i \<or> k = j)"
  "in_pair k (ps @ qs) = (in_pair k ps \<or> in_pair k qs)"
  by (auto simp: in_pair_def)

lemma keeps_unlogged_refl: "keeps_unlogged sl sl"
  by (simp add: keeps_unlogged_def)

lemma keeps_unlogged_trans:
  assumes "keeps_unlogged sl sl'" and "keeps_unlogged sl' sl''"
  shows "keeps_unlogged sl sl''"
proof -
  from assms(1) obtain n1 where n1: "snd sl' = snd sl @ n1"
    "\<forall>k. \<not> in_pair k n1 \<longrightarrow> fst (fst sl') ! k = fst (fst sl) ! k"
    and l1: "length (fst (fst sl')) = length (fst (fst sl))"
    by (auto simp: keeps_unlogged_def)
  from assms(2) obtain n2 where n2: "snd sl'' = snd sl' @ n2"
    "\<forall>k. \<not> in_pair k n2 \<longrightarrow> fst (fst sl'') ! k = fst (fst sl') ! k"
    and l2: "length (fst (fst sl'')) = length (fst (fst sl'))"
    by (auto simp: keeps_unlogged_def)
  have "snd sl'' = snd sl @ (n1 @ n2)" by (simp add: n1 n2)
  moreover have "\<forall>k. \<not> in_pair k (n1 @ n2) \<longrightarrow> fst (fst sl'') ! k = fst (fst sl) ! k"
    using n1(2) n2(2) by simp
  ultimately show ?thesis
    unfolding keeps_unlogged_def using l1 l2 by (intro conjI exI [of _ "n1 @ n2"]) simp_all
qed

lemma keeps_unlogged_pair: "keeps_unlogged sl (collide_pair_logged i j sl)"
proof (cases sl)
  case (Pair st calls)
  show ?thesis
  proof (cases "isCollidingWith (fst st ! i) (fst st ! j)")
    case True
    have "\<forall>k. \<not> in_pair k [(i, j)] \<longrightarrow> fst (collide_pair i j st) ! k = fst st ! k"
      by (simp add: collide_pair_other)
    then show ?thesis
      unfolding keeps_unlogged_def using True
      by (intro conjI exI [of _ "[(i, j)]"]) (simp_all add: Pair collide_pair_logged_def)
  next
    case False
    then show ?thesis
      unfolding keeps_unlogged_def
      by (intro conjI exI [of _ "[]"]) (simp_all add: Pair collide_pair_logged_def
            collide_pair_apart)
  qed
qed

lemma fold_keeps_unlogged:
  assumes "\<And>a s. keeps_unlogged s (f a s)"
  shows "keeps_unlogged sl (fold f xs sl)"
proof (induction xs arbitrary: sl)
  case Nil
  show ?case by (simp add: keeps_unlogged_refl)
next
  case (Cons a xs)
  have "keeps_unlogged sl (f a sl)" by (rule assms)
  moreover have "keeps_unlogged (f a sl) (fold f xs (f a sl))" by (rule Cons.IH)
  ultimately show ?case by (simp add: keeps_unlogged_trans)
qed

lemma fst_fold:
  assumes "\<And>a s. fst (g a s) = f a (fst s)"
  shows "fst (fold g xs s) = fold f xs (fst s)"
  by (induction xs arbitrary: s) (simp_all add: assms)

lemma fst_collide_pair_logged: "fst (collide_pair_logged i j sl) = collide_pair i j (fst sl)"
  by (cases sl) (simp add: collide_pair_logged_def)

text \<open>
  The loops that keep the calls run the loops of \<^verbatim>\<open>handleCollisions\<close>, and a body whose
  index is in none of the calls comes out of \<^verbatim>\<open>handleCollisions\<close> as it went in.
\<close>

lemma collide_all_logged:
  "fst (fold (\<lambda>i sl. fold (\<lambda>j sl. collide_pair_logged i j sl)
                      [i + 1 ..< length (fst (fst sl))] sl)
          [0 ..< length (fst st)] (st, [])) = collide_all st"
proof -
  have inner: "fst (fold (\<lambda>j sl. collide_pair_logged i j sl) js sl)
                 = fold (\<lambda>j st. collide_pair i j st) js (fst sl)" for i js sl
    by (rule fst_fold) (rule fst_collide_pair_logged)
  have "fst (fold (\<lambda>i sl. fold (\<lambda>j sl. collide_pair_logged i j sl)
                      [i + 1 ..< length (fst (fst sl))] sl) is sl)
        = fold (\<lambda>i st. fold (\<lambda>j st. collide_pair i j st) [i + 1 ..< length (fst st)] st)
            is (fst sl)" for "is" sl
    by (induction "is" arbitrary: sl) (simp_all add: inner)
  then show ?thesis by (simp add: collide_all_def)
qed

lemma collide_all_untouched:
  assumes "\<not> in_pair k (resolved_pairs st)"
  shows "fst (collide_all st) ! k = fst st ! k"
    and "length (fst (collide_all st)) = length (fst st)"
proof -
  let ?r = "fold (\<lambda>i sl. fold (\<lambda>j sl. collide_pair_logged i j sl)
                      [i + 1 ..< length (fst (fst sl))] sl)
              [0 ..< length (fst st)] (st, [])"
  have "keeps_unlogged (st, []) ?r"
    by (intro fold_keeps_unlogged keeps_unlogged_pair)
  then have k: "length (fst (fst ?r)) = length (fst st)"
    "\<forall>k. \<not> in_pair k (snd ?r) \<longrightarrow> fst (fst ?r) ! k = fst st ! k"
    by (auto simp: keeps_unlogged_def)
  have f: "fst ?r = collide_all st" by (rule collide_all_logged)
  have s: "snd ?r = resolved_pairs st" by (simp only: resolved_pairs_def)
  have "\<not> in_pair k (snd ?r)" unfolding s by (rule assms)
  with k(2) have "fst (fst ?r) ! k = fst st ! k" by blast
  then show "fst (collide_all st) ! k = fst st ! k" by (simp only: f)
  show "length (fst (collide_all st)) = length (fst st)"
    using k(1) by (simp only: f)
qed

text \<open>
  A body that its own \<^verbatim>\<open>update\<close> leaves alone, for which no boundary test holds and
  which is in no call of \<^verbatim>\<open>resolveCollision\<close>, comes out of a substep as it went in.
\<close>

lemma substep_keeps_untouched:
  assumes frozen: "\<And>dt. body_update b dt = b"
    and clear: "clear_of_walls (worldBounds w) b"
    and i: "i < length (bodies w)" "bodies w ! i = b"
    and calls: "\<not> in_pair i (substep_pairs cs w)"
  shows "i < length (bodies (substep cs w)) \<and> bodies (substep cs w) ! i = b"
proof -
  let ?st = "(map (\<lambda>body. body_update body cs) (bodies w), rand_state w)"
  have c: "\<not> in_pair i (resolved_pairs ?st)"
    using calls by (simp add: substep_pairs_def)
  have n: "fst (collide_all ?st) ! i = b"
    using collide_all_untouched(1) [OF c] i by (simp add: frozen)
  have l: "length (fst (collide_all ?st)) = length (bodies w)"
    using collide_all_untouched(2) [OF c] by simp
  have bs: "bodies (substep cs w) = map (boundary_body (worldBounds w)) (fst (collide_all ?st))"
    by (simp add: substep_def handleCollisions_def handleWorldBoundaries_def Let_def
          case_prod_beta)
  show ?thesis
    using i(1) n l clear by (simp add: bs boundary_body_clear)
qed

lemma fold_substep_timeStep [simp]: "timeStep (fold substep css w) = timeStep w"
  by (induction css arbitrary: w) simp_all

lemma fold_substep_maxSubsteps [simp]: "maxSubsteps (fold substep css w) = maxSubsteps w"
  by (induction css arbitrary: w) simp_all

lemma update_timeStep [simp]: "timeStep (update w dt) = timeStep w"
  by (simp add: update_def update_loop_fold)

lemma update_maxSubsteps [simp]: "maxSubsteps (update w dt) = maxSubsteps w"
  by (simp add: update_def update_loop_fold)

lemma substeps_keep_untouched:
  assumes "\<And>dt. body_update b dt = b"
    and "clear_of_walls (worldBounds w) b"
    and "i < length (bodies w)" "bodies w ! i = b"
    and "\<not> in_pair i (substeps_pairs css w)"
  shows "i < length (bodies (fold substep css w)) \<and> bodies (fold substep css w) ! i = b"
  using assms(2-)
proof (induction css arbitrary: w)
  case Nil
  then show ?case by simp
next
  case (Cons cs css)
  have s: "i < length (bodies (substep cs w)) \<and> bodies (substep cs w) ! i = b"
    using assms(1) Cons.prems(1-3) Cons.prems(4) by (intro substep_keeps_untouched) simp_all
  show ?case
    using Cons.IH [of "substep cs w"] Cons.prems(1,4) s by simp
qed

lemma update_keeps_untouched:
  assumes "\<And>dt. body_update b dt = b"
    and "clear_of_walls (worldBounds w) b"
    and "i < length (bodies w)" "bodies w ! i = b"
    and "\<not> in_pair i (update_pairs w dt)"
  shows "i < length (bodies (update w dt)) \<and> bodies (update w dt) ! i = b"
  unfolding update_def update_loop_fold
  using assms by (intro substeps_keep_untouched) (simp_all add: update_pairs_def)

lemma updates_keep_untouched:
  assumes "\<And>dt. body_update b dt = b"
    and "clear_of_walls (worldBounds w) b"
    and "i < length (bodies w)" "bodies w ! i = b"
    and "\<not> in_pair i (updates_pairs w dts)"
  shows "bodies (fold (\<lambda>dt w. update w dt) dts w) ! i = b"
  using assms(2-)
proof (induction dts arbitrary: w)
  case Nil
  then show ?case by simp
next
  case (Cons dt dts)
  have u: "i < length (bodies (update w dt)) \<and> bodies (update w dt) ! i = b"
    using assms(1) Cons.prems by (intro update_keeps_untouched) simp_all
  show ?case
    using Cons.IH [of "update w dt"] Cons.prems(1,4) u by simp
qed

lemma sqrt_9_100: "sqrt (9 / 100) = 3 / 10"
  by (rule real_sqrt_unique) (simp_all add: power2_eq_square)

lemma two_body_world_fields [simp]:
  "timeStep (two_body_world a b) = Fin (1 / 60)"
  "maxSubsteps (two_body_world a b) = 4"
  "bodies (two_body_world a b) = [a, b]"
  "rand_state (two_body_world a b) = rand_zero"
  "worldBounds (two_body_world a b) = [Fin (- 15), Fin 15, Fin 0, Fin 10, Fin (- 15), Fin 15]"
  by (simp_all add: two_body_world_def addBody_def PhysicsWorld_new_def)

lemma collide_all_two:
  "collide_all ([a, b], rs) = collide_pair 0 1 ([a, b], rs)"
  by (simp add: collide_all_def collide_pair_def Let_def split: prod.splits)

lemma update_two_body_world:
  assumes "0 < d" and "d \<le> 1 / 60"
  shows "update (two_body_world a b) (Fin d) =
           substep (Fin d) (two_body_world a b)"
proof -
  let ?w = "two_body_world a b"
  have cs: "std_min (Fin d) (Fin (1 / 60)) = Fin d"
    using assms by (simp add: std_min_def)
  have "update ?w (Fin d) = update_loop (substep (Fin d) ?w) (Fin 0) 1"
    using assms(1) by (simp add: update_def update_loop.simps [of ?w] cs Let_def minus_f32_def)
  also have "\<dots> = substep (Fin d) ?w"
    by (simp add: update_loop.simps [of _ "Fin 0"])
  finally show ?thesis .
qed

lemma resting_ball_step:
  "body_update resting_ball (Fin (1 / 60)) =
     resting_ball\<lparr>velocity := \<lparr>x = Fin 0, y = Fin 0.12413574, z = Fin 0\<rparr>,
                  acceleration := \<lparr>x = Fin 0, y = Fin (- 9.81), z = Fin 0\<rparr>\<rparr>"
  by (simp add: resting_ball_def body_update_def Ball_update_def PhysicsBody_update_def
        Ball_new_def grey_def PhysicsBody_new_def Vector3_plus_def Vector3_times_def Vector3_divide_def
        Vector3_ZERO_def Let_def)

lemma held_pair_colliding:
  "isCollidingWith held_low (body_update resting_ball (Fin (1 / 60)))"
  by (simp add: resting_ball_step)
     (simp add: isCollidingWith_def held_low_def resting_ball_def setHeld_def Ball_new_def grey_def
        PhysicsBody_new_def magnitude_def Vector3_minus_def minus_f32_def sqrt_9_100 Let_def)

lemma held_pair_resolved:
  "resolveCollision held_low (body_update resting_ball (Fin (1 / 60))) rand_zero =
     (held_low\<lparr>position := \<lparr>x = Fin (- 0.076), y = Fin 0.25, z = Fin 0\<rparr>,
                  velocity := \<lparr>x = Fin (- 0.05), y = Fin (- 0.05), z = Fin (- 0.05)\<rparr>\<rparr>,
      resting_ball\<lparr>position := \<lparr>x = Fin 0.376, y = Fin 0.25, z = Fin 0\<rparr>,
                velocity := \<lparr>x = Fin 0.05, y = Fin 0.17413574, z = Fin 0.05\<rparr>,
                acceleration := \<lparr>x = Fin 0, y = Fin (- 9.81), z = Fin 0\<rparr>\<rparr>,
      rand_zero)"
  by (simp add: resting_ball_step)
     (simp add: held_low_def resting_ball_def setHeld_def Ball_new_def grey_def getInverseMass_def
        resolveCollision_def PhysicsBody_new_def normalized_def magnitude_def dot_def
        applyImpulse_def Vector3_minus_def Vector3_plus_def Vector3_times_def
        Vector3_divide_def Vector3_ZERO_def minus_f32_def std_min_def std_max_def Let_def
        sqrt_9_100 rand_def rand_zero_def RAND_MAX_def fun_eq_iff)

text \<open>
  The held ball \<open>held_low\<close> and the free ball \<open>resting_ball\<close> through one
  \<^verbatim>\<open>update(1/60)\<close>: the free ball is integrated and put back on the floor by
  \<^verbatim>\<open>Ball::update\<close>, the pair is found colliding, and \<^verbatim>\<open>resolveCollision\<close> pushes both
  balls apart and perturbs both velocities.
\<close>

lemma held_pair_update:
  "bodies (update (two_body_world held_low resting_ball) (Fin (1 / 60))) =
     [held_low\<lparr>position := \<lparr>x = Fin (- 0.076), y = Fin 0.25, z = Fin 0\<rparr>,
                  velocity := \<lparr>x = Fin (- 0.05), y = Fin (- 0.05), z = Fin (- 0.05)\<rparr>\<rparr>,
      resting_ball\<lparr>position := \<lparr>x = Fin 0.376, y = Fin 0.25, z = Fin 0\<rparr>,
                velocity := \<lparr>x = Fin 0.05, y = Fin 0.17413574, z = Fin 0.05\<rparr>,
                acceleration := \<lparr>x = Fin 0, y = Fin (- 9.81), z = Fin 0\<rparr>\<rparr>]"
proof -
  have h: "is_held_ball held_low"
    by (simp_all add: held_low_def is_held_ball_def setHeld_def Ball_new_def grey_def
          PhysicsBody_new_def Let_def)
  have c: "collide_all ([held_low, body_update resting_ball (Fin (1 / 60))], rand_zero) =
     ([held_low\<lparr>position := \<lparr>x = Fin (- 0.076), y = Fin 0.25, z = Fin 0\<rparr>,
                  velocity := \<lparr>x = Fin (- 0.05), y = Fin (- 0.05), z = Fin (- 0.05)\<rparr>\<rparr>,
      resting_ball\<lparr>position := \<lparr>x = Fin 0.376, y = Fin 0.25, z = Fin 0\<rparr>,
                velocity := \<lparr>x = Fin 0.05, y = Fin 0.17413574, z = Fin 0.05\<rparr>,
                acceleration := \<lparr>x = Fin 0, y = Fin (- 9.81), z = Fin 0\<rparr>\<rparr>], rand_zero)"
    by (simp add: collide_all_two collide_pair_def held_pair_colliding held_pair_resolved)
  have b1: "boundary_body [Fin (- 15), Fin 15, Fin 0, Fin 10, Fin (- 15), Fin 15]
      (held_low\<lparr>position := \<lparr>x = Fin (- 0.076), y = Fin 0.25, z = Fin 0\<rparr>,
                  velocity := \<lparr>x = Fin (- 0.05), y = Fin (- 0.05), z = Fin (- 0.05)\<rparr>\<rparr>)
      = held_low\<lparr>position := \<lparr>x = Fin (- 0.076), y = Fin 0.25, z = Fin 0\<rparr>,
                  velocity := \<lparr>x = Fin (- 0.05), y = Fin (- 0.05), z = Fin (- 0.05)\<rparr>\<rparr>"
    by (simp add: boundary_body_def check_x_def check_y_def check_z_def held_low_def
          setHeld_def Ball_new_def grey_def PhysicsBody_new_def Vector3_ZERO_def minus_f32_def Let_def)
  have b2: "boundary_body [Fin (- 15), Fin 15, Fin 0, Fin 10, Fin (- 15), Fin 15]
      (resting_ball\<lparr>position := \<lparr>x = Fin 0.376, y = Fin 0.25, z = Fin 0\<rparr>,
                velocity := \<lparr>x = Fin 0.05, y = Fin 0.17413574, z = Fin 0.05\<rparr>,
                acceleration := \<lparr>x = Fin 0, y = Fin (- 9.81), z = Fin 0\<rparr>\<rparr>)
      = resting_ball\<lparr>position := \<lparr>x = Fin 0.376, y = Fin 0.25, z = Fin 0\<rparr>,
                velocity := \<lparr>x = Fin 0.05, y = Fin 0.17413574, z = Fin 0.05\<rparr>,
                acceleration := \<lparr>x = Fin 0, y = Fin (- 9.81), z = Fin 0\<rparr>\<rparr>"
    by (simp add: boundary_body_def check_x_def check_y_def check_z_def resting_ball_def
          setHeld_def Ball_new_def grey_def PhysicsBody_new_def Vector3_ZERO_def minus_f32_def Let_def)
  show ?thesis
    using b1 b2
    by (simp add: update_two_body_world substep_def handleCollisions_def
          handleWorldBoundaries_def body_update_held h c Let_def)
qed

text \<open>
  C3, as the claim states it, fails. The held ball \<open>held_far\<close> at (20, 5, 0) is not
  integrated, but \<^verbatim>\<open>handleWorldBoundaries\<close> does not look at \<^verbatim>\<open>isHeld\<close> and moves it to
  x = 14.75 during \<^verbatim>\<open>update(1/60)\<close>. The held ball \<open>held_low\<close> at (0, 0.25, 0) overlaps
  the free ball \<open>resting_ball\<close>: \<^verbatim>\<open>handleCollisions\<close> does not look at \<^verbatim>\<open>isHeld\<close> either,
  and the positional correction moves the held ball to x = -0.076.
\<close>

theorem update_moves_held_ball:
  "is_held_ball held_far
   \<and> position held_far = \<lparr>x = Fin 20, y = Fin 5, z = Fin 0\<rparr>
   \<and> bodies (update (single_body_world held_far) (Fin (1 / 60)))
       = [held_far\<lparr>position := \<lparr>x = Fin 14.75, y = Fin 5, z = Fin 0\<rparr>\<rparr>]
   \<and> is_held_ball held_low
   \<and> position held_low = \<lparr>x = Fin 0, y = Fin 0.25, z = Fin 0\<rparr>
   \<and> position (bodies (update (two_body_world held_low resting_ball) (Fin (1 / 60))) ! 0)
       = \<lparr>x = Fin (- 0.076), y = Fin 0.25, z = Fin 0\<rparr>"
proof -
  have h: "is_held_ball held_far" "is_held_ball held_low"
    by (simp_all add: held_far_def held_low_def is_held_ball_def setHeld_def Ball_new_def grey_def
          PhysicsBody_new_def Let_def)
  have "boundary_body [Fin (- 15), Fin 15, Fin 0, Fin 10, Fin (- 15), Fin 15] held_far
          = held_far\<lparr>position := \<lparr>x = Fin 14.75, y = Fin 5, z = Fin 0\<rparr>\<rparr>"
    by (simp add: boundary_body_def check_x_def check_y_def check_z_def held_far_def
          setHeld_def Ball_new_def grey_def PhysicsBody_new_def Vector3_ZERO_def minus_f32_def Let_def)
  then have far: "bodies (update (single_body_world held_far) (Fin (1 / 60)))
       = [held_far\<lparr>position := \<lparr>x = Fin 14.75, y = Fin 5, z = Fin 0\<rparr>\<rparr>]"
    using h(1) by (simp add: update_single_body_world body_update_held)
  have pos: "position held_far = \<lparr>x = Fin 20, y = Fin 5, z = Fin 0\<rparr>"
    "position held_low = \<lparr>x = Fin 0, y = Fin 0.25, z = Fin 0\<rparr>"
    by (simp_all add: held_far_def held_low_def setHeld_def Ball_new_def grey_def PhysicsBody_new_def
          Let_def)
  show ?thesis
    using h far pos by (simp add: held_pair_update)
qed

text \<open>
  C3, amended. The \<^verbatim>\<open>update\<close> of a held ball changes nothing, for any \<open>dt\<close>: a held
  ball is excluded from integration. It is not excluded from the pairwise or the
  boundary resolution. It keeps its position, and every other field, over any number
  of \<^verbatim>\<open>update(dt)\<close> calls of the world, for any values of \<open>dt\<close>, when none of the six
  tests of \<^verbatim>\<open>handleWorldBoundaries\<close> holds for it and \<^verbatim>\<open>handleCollisions\<close> calls
  \<^verbatim>\<open>resolveCollision\<close> on no pair that contains it during these calls, whatever the
  other bodies of the world do.
\<close>

theorem held_ball_frozen:
  assumes "is_held_ball b"
  shows "body_update b dt = b
       \<and> (i < length (bodies w) \<and> bodies w ! i = b
          \<and> clear_of_walls (worldBounds w) b
          \<and> \<not> in_pair i (updates_pairs w dts)
          \<longrightarrow> bodies (fold (\<lambda>dt w. update w dt) dts w) ! i = b)"
proof (intro conjI impI)
  show "body_update b dt = b" using assms by (rule body_update_held)
next
  assume a: "i < length (bodies w) \<and> bodies w ! i = b
          \<and> clear_of_walls (worldBounds w) b
          \<and> \<not> in_pair i (updates_pairs w dts)"
  have f: "\<And>dt. body_update b dt = b" using assms by (rule body_update_held)
  show "bodies (fold (\<lambda>dt w. update w dt) dts w) ! i = b"
    using f a by (intro updates_keep_untouched) simp_all
qed

text \<open>
  The held ball \<open>held_low\<close> beside the free, active ball \<open>resting_far\<close>, 2 away: the
  pair is tested and does not collide.
\<close>

theorem held_ball_frozen_witness:
  "is_held_ball held_low
   \<and> isActive resting_far
   \<and> clear_of_walls (worldBounds (two_body_world held_low resting_far)) held_low
   \<and> updates_pairs (two_body_world held_low resting_far) [Fin (1 / 60), Fin 0] = []
   \<and> body_update held_low (Fin 1) = held_low
   \<and> bodies (fold (\<lambda>dt w. update w dt) [Fin (1 / 60), Fin 0]
               (two_body_world held_low resting_far)) ! 0 = held_low"
proof -
  let ?w = "two_body_world held_low resting_far"
  have h: "is_held_ball held_low"
    by (simp add: held_low_def is_held_ball_def setHeld_def Ball_new_def grey_def
          PhysicsBody_new_def Let_def)
  have act: "isActive resting_far"
    by (simp add: resting_far_def Ball_new_def grey_def PhysicsBody_new_def Let_def)
  have clear: "clear_of_walls (worldBounds ?w) held_low"
    by (simp add: clear_of_walls_def held_low_def setHeld_def Ball_new_def grey_def
          PhysicsBody_new_def minus_f32_def Let_def)
  have step: "body_update resting_far (Fin (1 / 60)) =
     resting_far\<lparr>velocity := \<lparr>x = Fin 0, y = Fin 0.12413574, z = Fin 0\<rparr>,
                 acceleration := \<lparr>x = Fin 0, y = Fin (- 9.81), z = Fin 0\<rparr>\<rparr>"
    by (simp add: resting_far_def body_update_def Ball_update_def PhysicsBody_update_def
          Ball_new_def grey_def PhysicsBody_new_def Vector3_plus_def Vector3_times_def
          Vector3_divide_def Vector3_ZERO_def Let_def)
  have apart: "\<not> isCollidingWith held_low (body_update resting_far (Fin (1 / 60)))"
    by (simp add: step)
       (simp add: isCollidingWith_def held_low_def resting_far_def setHeld_def Ball_new_def
          grey_def PhysicsBody_new_def magnitude_def Vector3_minus_def minus_f32_def Let_def)
  have sub: "substep_pairs (Fin (1 / 60)) ?w = []"
    using apart
    by (simp add: substep_pairs_def resolved_pairs_def collide_pair_logged_def
          body_update_held h)
  have sizes: "step_sizes (Fin (1 / 60)) 4 (Fin (1 / 60)) 0 = [Fin (1 / 60)]"
    by (simp add: step_sizes.simps [of _ _ "Fin (1 / 60)"] step_sizes.simps [of _ _ "Fin 0"]
          std_min_def minus_f32_def Let_def)
  have none: "step_sizes (Fin (1 / 60)) 4 (Fin 0) 0 = []"
    by (simp add: step_sizes.simps [of _ _ "Fin 0"])
  have calls: "updates_pairs ?w [Fin (1 / 60), Fin 0] = []"
    by (simp add: update_pairs_def sizes none sub)
  have i: "0 < length (bodies ?w)" "bodies ?w ! 0 = held_low"
    by simp_all
  from held_ball_frozen [OF h, of "Fin 1" 0 ?w "[Fin (1 / 60), Fin 0]"]
  show ?thesis
    using h act clear calls i by simp
qed

text \<open>
  C8. The inactive body \<open>inactive_far\<close> is outside the room: \<^verbatim>\<open>handleWorldBoundaries\<close>
  does not look at \<^verbatim>\<open>isActive\<close>, moves it to x = 14.5 and reflects its velocity. The
  inactive ball \<open>inactive_ball\<close> is inside the room: \<^verbatim>\<open>Ball::update\<close> scales its velocity
  by \<^verbatim>\<open>spinDamping\<close> after \<^verbatim>\<open>PhysicsBody::update\<close> has returned early.
\<close>

theorem update_changes_inactive_body:
  "\<not> isActive inactive_far
   \<and> position inactive_far = \<lparr>x = Fin 20, y = Fin 5, z = Fin 0\<rparr>
   \<and> velocity inactive_far = \<lparr>x = Fin 1, y = Fin 0, z = Fin 0\<rparr>
   \<and> bodies (update (single_body_world inactive_far) (Fin (1 / 60)))
       = [inactive_far\<lparr>position := \<lparr>x = Fin 14.5, y = Fin 5, z = Fin 0\<rparr>,
                       velocity := \<lparr>x = Fin (- 0.7), y = Fin 0, z = Fin 0\<rparr>\<rparr>]
   \<and> \<not> isActive inactive_ball
   \<and> velocity inactive_ball = \<lparr>x = Fin 1, y = Fin 0, z = Fin 0\<rparr>
   \<and> bodies (update (single_body_world inactive_ball) (Fin (1 / 60)))
       = [inactive_ball\<lparr>velocity := \<lparr>x = Fin 0.95, y = Fin 0, z = Fin 0\<rparr>\<rparr>]"
  by (simp add: update_single_body_world)
     (simp add: inactive_far_def inactive_ball_def body_update_def PhysicsBody_update_def
        Ball_update_def Ball_new_def grey_def PhysicsBody_new_def boundary_body_def check_x_def
        check_y_def check_z_def Vector3_times_def Vector3_ZERO_def minus_f32_def Let_def)

theorem update_changes_inactive_body_witness:
  "x (position (hd (bodies (update (single_body_world inactive_far) (Fin (1 / 60)))))) = Fin 14.5
   \<and> x (velocity (hd (bodies (update (single_body_world inactive_ball) (Fin (1 / 60)))))) = Fin 0.95"
  using update_changes_inactive_body by simp


end
